theory Spec2Isabelle
  imports Complex_Main "HOL-Library.Word" "HOL-Library.Sublist"
begin

section \<open>JavaScript values\<close>

text \<open>
  A JavaScript string is a sequence of UTF-16 code units. String literals of the source
  are ASCII and are written with \<open>ascii\<close>.
\<close>

type_synonym jsstring = "16 word list"

definition ascii :: "string \<Rightarrow> jsstring" where
  "ascii s = map (\<lambda>c. of_nat (of_char c)) s"

definition squote :: jsstring where
  "squote = [0x27]"

definition dquote :: jsstring where
  "dquote = [0x22]"

definition newline :: jsstring where
  "newline = [0x0A]"

text \<open>
  Template interpolation of an integer-valued number (\<open>Date.now()\<close> and differences of
  two such readings): plain decimal digits, with a minus sign for a negative value.
\<close>

fun dec_nat :: "nat \<Rightarrow> jsstring" where
  "dec_nat n = (if n < 10 then [of_nat (48 + n)]
                else dec_nat (n div 10) @ [of_nat (48 + n mod 10)])"

declare dec_nat.simps [simp del]

definition dec :: "int \<Rightarrow> jsstring" where
  "dec i = (if i < 0 then 0x2D # dec_nat (nat (- i)) else dec_nat (nat i))"

text \<open>
  \<open>String.prototype.trim\<close> removes the ECMAScript white space and line terminator code
  units from both ends.
\<close>

definition is_js_space :: "16 word \<Rightarrow> bool" where
  "is_js_space c \<longleftrightarrow>
     c = 0x9 \<or> c = 0xA \<or> c = 0xB \<or> c = 0xC \<or> c = 0xD \<or> c = 0x20 \<or> c = 0xA0 \<or>
     c = 0x1680 \<or> (0x2000 \<le> c \<and> c \<le> 0x200A) \<or> c = 0x2028 \<or> c = 0x2029 \<or>
     c = 0x202F \<or> c = 0x205F \<or> c = 0x3000 \<or> c = 0xFEFF"

definition js_trim :: "jsstring \<Rightarrow> jsstring" where
  "js_trim s = rev (dropWhile is_js_space (rev (dropWhile is_js_space s)))"

text \<open>
  The values \<open>JSON.parse\<close> and the JSON body parser produce. A number is kept as a
  rational (every finite double is one); the program only observes whether it is zero.
  An object is its list of own properties; a lookup takes the first binding of a key.
  A JavaScript value that may also be \<open>undefined\<close> is a \<open>json option\<close>.
\<close>

datatype json =
    JNull
  | JBool bool
  | JNum rat
  | JStr jsstring
  | JArr "json list"
  | JObj "(jsstring \<times> json) list"

type_synonym jsval = "json option"

fun truthy :: "jsval \<Rightarrow> bool" where
  "truthy None = False"
| "truthy (Some JNull) = False"
| "truthy (Some (JBool b)) = b"
| "truthy (Some (JNum n)) = (n \<noteq> 0)"
| "truthy (Some (JStr s)) = (s \<noteq> [])"
| "truthy (Some (JArr xs)) = True"
| "truthy (Some (JObj kvs)) = True"

datatype jstype = T_undefined | T_object | T_boolean | T_number | T_string

fun typeof :: "jsval \<Rightarrow> jstype" where
  "typeof None = T_undefined"
| "typeof (Some JNull) = T_object"
| "typeof (Some (JBool b)) = T_boolean"
| "typeof (Some (JNum n)) = T_number"
| "typeof (Some (JStr s)) = T_string"
| "typeof (Some (JArr xs)) = T_object"
| "typeof (Some (JObj kvs)) = T_object"

text \<open>Thrown values: every one is an \<open>Error\<close> object with a message.\<close>

datatype js_error =
    Error jsstring
  | TypeError jsstring
  | SyntaxError jsstring

fun message :: "js_error \<Rightarrow> jsstring" where
  "message (Error m) = m"
| "message (TypeError m) = m"
| "message (SyntaxError m) = m"

text \<open>
  \<open>analysis[field]\<close> for a property name that is neither an array index nor a built-in
  property of strings, arrays, numbers or booleans (the three field names read by the
  program): reading it from \<open>null\<close> throws, an object yields its own property or
  \<open>undefined\<close>, every other value yields \<open>undefined\<close>.
\<close>

fun get_field :: "json \<Rightarrow> jsstring \<Rightarrow> js_error + jsval" where
  "get_field JNull k =
     Inl (TypeError (ascii ''Cannot read properties of null (reading '' @ squote @ k @ squote @ ascii '')''))"
| "get_field (JObj kvs) k = Inr (map_of kvs k)"
| "get_field (JBool b) k = Inr None"
| "get_field (JNum n) k = Inr None"
| "get_field (JStr s) k = Inr None"
| "get_field (JArr xs) k = Inr None"

section \<open>The progress stream\<close>

datatype stage = Download | Upload | Extraction | Transcription | Analysis

datatype step =
    S_validation | S_download | S_upload | S_extraction | S_transcription | S_analysis
  | S_complete | S_error

fun step_of :: "stage \<Rightarrow> step" where
  "step_of Download = S_download"
| "step_of Upload = S_upload"
| "step_of Extraction = S_extraction"
| "step_of Transcription = S_transcription"
| "step_of Analysis = S_analysis"

text \<open>
  Time stamps (\<open>new Date().toISOString()\<close>) are kept as the clock reading in
  milliseconds; their ISO rendering is not modelled.
\<close>

record metadata =
  originalUrl :: jsval
  processedAt :: int
  steps :: "jsstring list"

record final_result =
  fr_sessionId :: jsstring
  fr_success :: bool
  fr_processingTime :: jsstring
  fr_videoUrl :: jsstring
  fr_transcript :: jsstring
  fr_analysis :: json
  fr_metadata :: metadata

record error_response =
  er_sessionId :: jsstring
  er_success :: bool
  er_error :: jsstring
  er_processingTime :: jsstring
  er_timestamp :: int

datatype payload =
    NoData
  | UrlData jsval
  | PathData jsstring
  | PublicUrlData jsstring
  | TranscriptData nat jsstring
  | AnalysisData json
  | ResultData final_result
  | ErrorData error_response

record progress_event =
  pe_sessionId :: jsstring
  pe_step :: step
  pe_message :: jsstring
  pe_timestamp :: int
  pe_data :: payload

datatype terminal = Final final_result | ErrorEvent error_response

datatype sse = Progress progress_event | Terminal terminal

section \<open>The world outside the program\<close>

record upload_opts =
  contentType :: jsstring
  upsert :: bool

record chat_request =
  rq_model :: jsstring
  rq_messages :: "(jsstring \<times> jsstring) list"
  rq_max_tokens :: nat
  rq_temperature :: rat
  rq_response_format :: jsstring

text \<open>
  Every file the program handles lies in the temp directory, and every path it builds is
  \<open>path.join(tempDir, name)\<close>: a path is represented by the file's name in the temp
  directory, and the file system by the listing of that directory.
\<close>

datatype call =
    YtDlp "jsval list"
  | ReadDir
  | PathExists jsstring
  | Remove jsstring
  | ReadFile jsstring
  | StorageUpload jsstring jsstring "8 word list" upload_opts
  | Ffmpeg jsstring jsstring
  | WhisperCreate jsstring jsstring
  | ChatCreate chat_request

text \<open>
  The observable actions of a session, in the order they happen: writes to the response,
  calls of external tools and services, and markers for the coordinator entering a stage,
  the stage resolving or rejecting, and the cleanup step being entered.
\<close>

datatype effect =
    WriteHead
  | Write sse
  | End
  | Invoke stage
  | Returned stage
  | Threw stage js_error
  | Exec call
  | CleanupStart "jsstring option" "jsstring option"

record world =
  files :: "jsstring list"
  bucket :: "jsstring \<rightharpoonup> 8 word list"
  trace :: "effect list"
  uuids :: nat
  ticks :: nat

record ytdlp_outcome =
  yt_result :: "js_error + jsstring"
  yt_wrote :: "jsstring list"

datatype ffmpeg_outcome = FfmpegEnd | FfmpegError js_error bool

record completion =
  choices :: "jsstring option list"
  total_tokens :: nat

text \<open>
  What the environment answers: the identifiers \<open>uuidv4()\<close> draws, the clock, the
  outcome of each external tool or remote call as a function of its arguments (for a tool
  that writes files: which files it left in the temp directory, also when it failed), and
  \<open>JSON.parse\<close>.
\<close>

record env =
  env_uuid :: "nat \<Rightarrow> jsstring"
  env_clock :: "nat \<Rightarrow> int"
  env_ytdlp :: "jsval list \<Rightarrow> ytdlp_outcome"
  env_readFile :: "jsstring \<Rightarrow> js_error + 8 word list"
  env_storage_reject :: "jsstring \<Rightarrow> jsstring option"
  env_publicUrl :: "jsstring \<Rightarrow> jsstring \<Rightarrow> jsstring"
  env_ffmpeg :: "jsstring \<Rightarrow> jsstring \<Rightarrow> ffmpeg_outcome"
  env_whisper :: "jsstring \<Rightarrow> js_error + jsstring"
  env_chat :: "chat_request \<Rightarrow> js_error + completion"
  env_json_parse :: "jsstring \<Rightarrow> js_error + json"
  env_remove_fails :: "jsstring \<Rightarrow> js_error option"

definition emit :: "effect \<Rightarrow> world \<Rightarrow> world" where
  "emit e w = w\<lparr>trace := trace w @ [e]\<rparr>"

definition uuidv4 :: "env \<Rightarrow> world \<Rightarrow> jsstring \<times> world" where
  "uuidv4 env w = (env_uuid env (uuids w), w\<lparr>uuids := Suc (uuids w)\<rparr>)"

definition Date_now :: "env \<Rightarrow> world \<Rightarrow> int \<times> world" where
  "Date_now env w = (env_clock env (ticks w), w\<lparr>ticks := Suc (ticks w)\<rparr>)"

definition fs_create :: "jsstring \<Rightarrow> world \<Rightarrow> world" where
  "fs_create name w = (if name \<in> set (files w) then w else w\<lparr>files := files w @ [name]\<rparr>)"

definition fs_pathExists :: "jsstring \<Rightarrow> world \<Rightarrow> bool \<times> world" where
  "fs_pathExists p w = (p \<in> set (files w), emit (Exec (PathExists p)) w)"

definition fs_remove :: "env \<Rightarrow> jsstring \<Rightarrow> world \<Rightarrow> (js_error + unit) \<times> world" where
  "fs_remove env p w =
     (let w1 = emit (Exec (Remove p)) w in
      case env_remove_fails env p of
        Some e \<Rightarrow> (Inl e, w1)
      | None \<Rightarrow> (Inr (), w1\<lparr>files := removeAll p (files w1)\<rparr>))"

definition fs_readFile :: "env \<Rightarrow> jsstring \<Rightarrow> world \<Rightarrow> (js_error + 8 word list) \<times> world" where
  "fs_readFile env p w =
     (let w1 = emit (Exec (ReadFile p)) w in
      if p \<in> set (files w1) then (env_readFile env p, w1)
      else (Inl (Error (ascii ''ENOENT: no such file or directory, open '' @ squote @ p @ squote)), w1))"

text \<open>
  The remote object store, as far as the upload options matter: a request the remote
  rejects for a reason of its own fails; with \<open>upsert: false\<close> a request for a name
  that is taken fails and leaves the stored object alone; otherwise the object is stored.
  The result is the \<open>error\<close> member of the response (its message), \<open>None\<close> for
  \<open>null\<close>.
\<close>

definition storage_upload ::
  "env \<Rightarrow> jsstring \<Rightarrow> jsstring \<Rightarrow> 8 word list \<Rightarrow> upload_opts \<Rightarrow> world \<Rightarrow> jsstring option \<times> world" where
  "storage_upload env bucketName name body opts w =
     (let w1 = emit (Exec (StorageUpload bucketName name body opts)) w in
      case env_storage_reject env name of
        Some msg \<Rightarrow> (Some msg, w1)
      | None \<Rightarrow>
          if bucket w1 name \<noteq> None \<and> \<not> upsert opts
          then (Some (ascii ''The resource already exists''), w1)
          else (None, w1\<lparr>bucket := (bucket w1)(name \<mapsto> body)\<rparr>))"

section \<open>services/downloader.js\<close>

definition ytdlp_args :: "jsval \<Rightarrow> jsstring \<Rightarrow> jsval list" where
  "ytdlp_args url outputTemplate =
     [url,
      Some (JStr (ascii ''--output'')), Some (JStr outputTemplate),
      Some (JStr (ascii ''--format'')), Some (JStr (ascii ''best[ext=mp4]/best'')),
      Some (JStr (ascii ''--no-playlist''))]"

text \<open>
  \<open>downloadVideo\<close>: every error of the \<open>try\<close> block, the one thrown for a missing
  file included, is caught and thrown again as \<open>Failed to download video: ...\<close>. The
  platform detection only feeds the log.
\<close>

definition downloadVideo :: "env \<Rightarrow> jsval \<Rightarrow> world \<Rightarrow> (js_error + jsstring) \<times> world" where
  "downloadVideo env url w =
     (let (videoId, w1) = uuidv4 env w;
          outputTemplate = videoId @ ascii ''.%(ext)s'';
          args = ytdlp_args url outputTemplate;
          out = env_ytdlp env args;
          w2 = fold fs_create (yt_wrote out) (emit (Exec (YtDlp args)) w1)
      in case yt_result out of
           Inl e \<Rightarrow> (Inl (Error (ascii ''Failed to download video: '' @ message e)), w2)
         | Inr downloadResult \<Rightarrow>
             let w3 = emit (Exec ReadDir) w2
             in case find (\<lambda>file. prefix videoId file) (files w3) of
                  None \<Rightarrow>
                    (Inl (Error (ascii ''Failed to download video: '' @
                                 message (Error (ascii ''Downloaded file not found'')))), w3)
                | Some downloadedFile \<Rightarrow> (Inr downloadedFile, w3))"

definition downloader_cleanup :: "env \<Rightarrow> jsstring \<Rightarrow> world \<Rightarrow> (js_error + unit) \<times> world" where
  "downloader_cleanup env filePath w =
     (case fs_pathExists filePath w of
        (True, w1) \<Rightarrow>
          (case fs_remove env filePath w1 of
             (Inl e, w2) \<Rightarrow> (Inr (), w2)
           | (Inr u, w2) \<Rightarrow> (Inr (), w2))
      | (False, w1) \<Rightarrow> (Inr (), w1))"

section \<open>services/transcriber.js\<close>

text \<open>
  \<open>extractAudio\<close>: the promise resolves with the audio path on ffmpeg's \<open>end\<close> event
  and rejects with ffmpeg's error on its \<open>error\<close> event; ffmpeg writes to the audio
  path itself, so a failed run may leave a file there.
\<close>

definition extractAudio :: "env \<Rightarrow> jsstring \<Rightarrow> world \<Rightarrow> (js_error + jsstring) \<times> world" where
  "extractAudio env videoPath w =
     (case fs_pathExists videoPath w of
        (False, w1) \<Rightarrow> (Inl (Error (ascii ''Video file not found: '' @ videoPath)), w1)
      | (True, w1) \<Rightarrow>
          let (audioId, w2) = uuidv4 env w1;
              audioPath = audioId @ ascii ''.wav'';
              w3 = emit (Exec (Ffmpeg videoPath audioPath)) w2
          in case env_ffmpeg env videoPath audioPath of
               FfmpegEnd \<Rightarrow> (Inr audioPath, fs_create audioPath w3)
             | FfmpegError e partial \<Rightarrow>
                 (Inl e, if partial then fs_create audioPath w3 else w3))"

definition transcriber_cleanup :: "env \<Rightarrow> jsstring \<Rightarrow> world \<Rightarrow> (js_error + unit) \<times> world" where
  "transcriber_cleanup env audioPath w =
     (case fs_pathExists audioPath w of
        (True, w1) \<Rightarrow>
          (case fs_remove env audioPath w1 of
             (Inl e, w2) \<Rightarrow> (Inr (), w2)
           | (Inr u, w2) \<Rightarrow> (Inr (), w2))
      | (False, w1) \<Rightarrow> (Inr (), w1))"

section \<open>The transcription service (WhisperService)\<close>

definition whisper_model :: jsstring where
  "whisper_model = ascii ''whisper-1''"

definition transcribeAudio :: "env \<Rightarrow> jsstring \<Rightarrow> world \<Rightarrow> (js_error + jsstring) \<times> world" where
  "transcribeAudio env audioPath w =
     (case fs_pathExists audioPath w of
        (False, w1) \<Rightarrow> (Inl (Error (ascii ''Audio file not found: '' @ audioPath)), w1)
      | (True, w1) \<Rightarrow>
          let w2 = emit (Exec (WhisperCreate audioPath whisper_model)) w1
          in case env_whisper env audioPath of
               Inl e \<Rightarrow> (Inl e, w2)
             | Inr transcription \<Rightarrow> (Inr transcription, w2))"

section \<open>services/gpt.js\<close>

record GPTService =
  model :: jsstring
  maxTokens :: nat
  temperature :: rat

definition new_GPTService :: GPTService where
  "new_GPTService =
     \<lparr>model = ascii ''gpt-4-turbo-preview'', maxTokens = 1000, temperature = 7 / 10\<rparr>"

definition unlines_js :: "jsstring list \<Rightarrow> jsstring" where
  "unlines_js ls = concat (map (\<lambda>l. l @ newline) ls)"

definition createAnalysisPrompt :: "jsstring \<Rightarrow> jsstring" where
  "createAnalysisPrompt transcript =
     newline @
     unlines_js
      [ascii ''Analyze the following video transcript and extract three key marketing elements. Return your response as a JSON object with exactly these three fields:'',
       [],
       ascii ''**Instructions:**'',
       ascii ''1. **hook**: Identify the most attention-grabbing opening or compelling moment that would make viewers stop scrolling and watch. This should be the strongest hook from the video content.'',
       [],
       ascii ''2. **cta**: Extract or infer the main call-to-action. This could be explicit (like '' @
         dquote @ ascii ''subscribe'' @ dquote @ ascii '', '' @
         dquote @ ascii ''buy now'' @ dquote @ ascii '', '' @
         dquote @ ascii ''follow me'' @ dquote @
         ascii '') or implicit (what action the creator wants viewers to take).'',
       [],
       ascii ''3. **usp**: Determine the unique selling proposition or value proposition - what makes this content/creator/product unique or valuable compared to others.'',
       [],
       ascii ''**Requirements:**'',
       ascii ''- Each field should be a clear, concise string (50-150 characters)'',
       ascii ''- Focus on marketing impact and viewer engagement'',
       ascii ''- If any element is not clearly present, infer the most logical one based on context'',
       ascii ''- Return valid JSON format only'',
       [],
       ascii ''**Video Transcript:**''] @
     transcript @ newline @
     unlines_js
      [[],
       ascii ''**Response Format:**'',
       ascii ''{'',
       ascii ''  '' @ dquote @ ascii ''hook'' @ dquote @ ascii '': '' @ dquote @
         ascii ''Your identified hook here'' @ dquote @ ascii '','',
       ascii ''  '' @ dquote @ ascii ''cta'' @ dquote @ ascii '': '' @ dquote @
         ascii ''Your identified call-to-action here'' @ dquote @ ascii '', '',
       ascii ''  '' @ dquote @ ascii ''usp'' @ dquote @ ascii '': '' @ dquote @
         ascii ''Your identified unique selling proposition here'' @ dquote,
       ascii ''}'']"

definition requiredFields :: "jsstring list" where
  "requiredFields = [ascii ''hook'', ascii ''cta'', ascii ''usp'']"

text \<open>One round of the loop of \<open>validateAnalysisResponse\<close>.\<close>

definition check_field :: "json \<Rightarrow> jsstring \<Rightarrow> js_error + unit" where
  "check_field analysis field =
     (case get_field analysis field of
        Inl e \<Rightarrow> Inl e
      | Inr v \<Rightarrow>
          if \<not> truthy v \<or> typeof v \<noteq> T_string
          then Inl (Error (ascii ''Invalid analysis response: missing or invalid '' @
                           squote @ field @ squote @ ascii '' field''))
          else (case v of
                  Some (JStr s) \<Rightarrow>
                    if length (js_trim s) = 0
                    then Inl (Error (ascii ''Invalid analysis response: '' @
                                     squote @ field @ squote @ ascii '' field is empty''))
                    else Inr ()
                | _ \<Rightarrow> Inr ()))"

fun validate_fields :: "json \<Rightarrow> jsstring list \<Rightarrow> js_error + unit" where
  "validate_fields analysis [] = Inr ()"
| "validate_fields analysis (field # rest) =
     (case check_field analysis field of
        Inl e \<Rightarrow> Inl e
      | Inr u \<Rightarrow> validate_fields analysis rest)"

definition validateAnalysisResponse :: "json \<Rightarrow> js_error + unit" where
  "validateAnalysisResponse analysis = validate_fields analysis requiredFields"

definition chat_request_of :: "GPTService \<Rightarrow> jsstring \<Rightarrow> chat_request" where
  "chat_request_of this prompt =
     \<lparr>rq_model = model this,
      rq_messages =
        [(ascii ''system'',
          ascii ''You are an expert content analyst specializing in social media video content. Your task is to analyze video transcripts and extract key marketing elements.''),
         (ascii ''user'', prompt)],
      rq_max_tokens = maxTokens this,
      rq_temperature = temperature this,
      rq_response_format = ascii ''json_object''\<rparr>"

text \<open>
  \<open>analyzeContent\<close>: the \<open>catch\<close> block logs and throws the same error again. Reading
  \<open>choices[0].message\<close> of an empty list and \<open>response.length\<close> of a \<open>null\<close>
  content throw a \<open>TypeError\<close>.
\<close>

definition analyzeContent ::
  "env \<Rightarrow> GPTService \<Rightarrow> jsstring \<Rightarrow> world \<Rightarrow> (js_error + json) \<times> world" where
  "analyzeContent env this transcript w =
     (let prompt = createAnalysisPrompt transcript;
          request = chat_request_of this prompt;
          w1 = emit (Exec (ChatCreate request)) w
      in case env_chat env request of
           Inl e \<Rightarrow> (Inl e, w1)
         | Inr completion \<Rightarrow>
             (case choices completion of
                [] \<Rightarrow>
                  (Inl (TypeError (ascii ''Cannot read properties of undefined (reading '' @
                                   squote @ ascii ''message'' @ squote @ ascii '')'')), w1)
              | None # others \<Rightarrow>
                  (Inl (TypeError (ascii ''Cannot read properties of null (reading '' @
                                   squote @ ascii ''length'' @ squote @ ascii '')'')), w1)
              | Some response # others \<Rightarrow>
                  (case env_json_parse env response of
                     Inl e \<Rightarrow> (Inl e, w1)
                   | Inr analysis \<Rightarrow>
                       (case validateAnalysisResponse analysis of
                          Inl e \<Rightarrow> (Inl e, w1)
                        | Inr u \<Rightarrow> (Inr analysis, w1)))))"

text \<open>
  \<open>generateAlternativeAnalysis(transcript, temperature = 1.2)\<close>: the instance is
  passed in and returned; \<open>None\<close> for the second argument is the call without it.
\<close>

definition generateAlternativeAnalysis ::
  "env \<Rightarrow> GPTService \<Rightarrow> jsstring \<Rightarrow> rat option \<Rightarrow> world \<Rightarrow> (js_error + json) \<times> GPTService \<times> world" where
  "generateAlternativeAnalysis env this transcript temperature_arg w =
     (let temp = (case temperature_arg of None \<Rightarrow> 12 / 10 | Some t \<Rightarrow> t);
          originalTemp = temperature this;
          this1 = this\<lparr>temperature := temp\<rparr>;
          (result, w1) = analyzeContent env this1 transcript w;
          this2 = this1\<lparr>temperature := originalTemp\<rparr>
      in (result, this2, w1))"

section \<open>The coordinator (VideoController)\<close>

record VideoController =
  gpt :: GPTService
  bucketName :: jsstring

text \<open>The parsed JSON body of the request, read only through \<open>req.body.url\<close>.\<close>

record request =
  body_url :: jsval

definition sendProgress ::
  "env \<Rightarrow> jsstring \<Rightarrow> step \<Rightarrow> jsstring \<Rightarrow> payload \<Rightarrow> world \<Rightarrow> world" where
  "sendProgress env sessionId step msg data w =
     (let (timestamp, w1) = Date_now env w;
          progressData = \<lparr>pe_sessionId = sessionId, pe_step = step, pe_message = msg,
                          pe_timestamp = timestamp, pe_data = data\<rparr>
      in emit (Write (Progress progressData)) w1)"

definition uploadToSupabase ::
  "env \<Rightarrow> VideoController \<Rightarrow> jsstring \<Rightarrow> jsstring \<Rightarrow> world \<Rightarrow> (js_error + jsstring) \<times> world" where
  "uploadToSupabase env this videoPath sessionId w =
     (case fs_readFile env videoPath w of
        (Inl e, w1) \<Rightarrow> (Inl e, w1)
      | (Inr videoBuffer, w1) \<Rightarrow>
          let (now, w2) = Date_now env w1;
              fileName = sessionId @ ascii ''_'' @ dec now @ ascii ''.mp4''
          in case storage_upload env (bucketName this) fileName videoBuffer
                    \<lparr>contentType = ascii ''video/mp4'', upsert = False\<rparr> w2 of
               (Some error_message, w3) \<Rightarrow>
                 (Inl (Error (ascii ''Supabase upload failed: '' @ error_message)), w3)
             | (None, w3) \<Rightarrow> (Inr (env_publicUrl env (bucketName this) fileName), w3))"

text \<open>
  \<open>cleanup\<close>: a recorded path is a non-empty string, so \<open>if (videoPath)\<close> tests for
  \<open>null\<close>. The \<open>catch\<close> block logs and returns.
\<close>

definition cleanup ::
  "env \<Rightarrow> jsstring option \<Rightarrow> jsstring option \<Rightarrow> jsstring \<Rightarrow> world \<Rightarrow> (js_error + unit) \<times> world" where
  "cleanup env videoPath audioPath sessionId w =
     (let w0 = emit (CleanupStart videoPath audioPath) w
      in case (case videoPath of
                 None \<Rightarrow> (Inr (), w0)
               | Some p \<Rightarrow> downloader_cleanup env p w0) of
           (Inl e, w1) \<Rightarrow> (Inr (), w1)
         | (Inr u, w1) \<Rightarrow>
             (case (case audioPath of
                      None \<Rightarrow> (Inr (), w1)
                    | Some p \<Rightarrow> transcriber_cleanup env p w1) of
                (Inl e, w2) \<Rightarrow> (Inr (), w2)
              | (Inr u', w2) \<Rightarrow> (Inr (), w2)))"

text \<open>Awaiting a stage, with the markers of the trace around it.\<close>

definition run_stage ::
  "stage \<Rightarrow> (world \<Rightarrow> (js_error + 'a) \<times> world) \<Rightarrow> world \<Rightarrow> (js_error + 'a) \<times> world" where
  "run_stage st body w =
     (case body (emit (Invoke st) w) of
        (Inl e, w1) \<Rightarrow> (Inl e, emit (Threw st e) w1)
      | (Inr v, w1) \<Rightarrow> (Inr v, emit (Returned st) w1))"

text \<open>
  The \<open>try\<close> block of \<open>analyzeVideo\<close>. It returns how it ended, the values of
  \<open>videoPath\<close> and \<open>audioPath\<close> at that moment, and the world.
\<close>

definition try_block ::
  "env \<Rightarrow> VideoController \<Rightarrow> request \<Rightarrow> jsstring \<Rightarrow> int \<Rightarrow> world \<Rightarrow>
     (js_error + unit) \<times> jsstring option \<times> jsstring option \<times> world" where
  "try_block env this req sessionId startTime w0 =
     (let url = body_url req in
      if \<not> truthy url then (Inl (Error (ascii ''Video URL is required'')), None, None, w0)
      else
        let w1 = sendProgress env sessionId S_validation (ascii ''Validating video URL'') (UrlData url) w0;
            w2 = sendProgress env sessionId S_download (ascii ''Starting video download...'') NoData w1
        in case run_stage Download (downloadVideo env url) w2 of
             (Inl e, w3) \<Rightarrow> (Inl e, None, None, w3)
           | (Inr videoPath, w3) \<Rightarrow>
        let w4 = sendProgress env sessionId S_download (ascii ''Video downloaded successfully'') (PathData videoPath) w3;
            w5 = sendProgress env sessionId S_upload (ascii ''Uploading video to Supabase storage...'') NoData w4
        in case run_stage Upload (uploadToSupabase env this videoPath sessionId) w5 of
             (Inl e, w6) \<Rightarrow> (Inl e, Some videoPath, None, w6)
           | (Inr supabaseVideoUrl, w6) \<Rightarrow>
        let w7 = sendProgress env sessionId S_upload (ascii ''Video uploaded to Supabase'') (PublicUrlData supabaseVideoUrl) w6;
            w8 = sendProgress env sessionId S_extraction (ascii ''Extracting audio from video...'') NoData w7
        in case run_stage Extraction (extractAudio env videoPath) w8 of
             (Inl e, w9) \<Rightarrow> (Inl e, Some videoPath, None, w9)
           | (Inr audioPath, w9) \<Rightarrow>
        let w10 = sendProgress env sessionId S_extraction (ascii ''Audio extracted successfully'') (PathData audioPath) w9;
            w11 = sendProgress env sessionId S_transcription (ascii ''Transcribing audio with OpenAI Whisper...'') NoData w10
        in case run_stage Transcription (transcribeAudio env audioPath) w11 of
             (Inl e, w12) \<Rightarrow> (Inl e, Some videoPath, Some audioPath, w12)
           | (Inr transcript, w12) \<Rightarrow>
        let w13 = sendProgress env sessionId S_transcription (ascii ''Audio transcribed successfully'')
                    (TranscriptData (length transcript) (take 100 transcript @ ascii ''...'')) w12;
            w14 = sendProgress env sessionId S_analysis (ascii ''Analyzing content with GPT-4...'') NoData w13
        in case run_stage Analysis (analyzeContent env (gpt this) transcript) w14 of
             (Inl e, w15) \<Rightarrow> (Inl e, Some videoPath, Some audioPath, w15)
           | (Inr analysis, w15) \<Rightarrow>
        let w16 = sendProgress env sessionId S_analysis (ascii ''Content analysis completed'') (AnalysisData analysis) w15;
            (now, w17) = Date_now env w16;
            processingTime = now - startTime;
            (processedAt_now, w18) = Date_now env w17;
            finalResult =
              \<lparr>fr_sessionId = sessionId,
               fr_success = True,
               fr_processingTime = dec processingTime @ ascii ''ms'',
               fr_videoUrl = supabaseVideoUrl,
               fr_transcript = transcript,
               fr_analysis = analysis,
               fr_metadata =
                 \<lparr>originalUrl = url,
                  processedAt = processedAt_now,
                  steps = [ascii ''download'', ascii ''upload'', ascii ''extraction'',
                           ascii ''transcription'', ascii ''analysis'']\<rparr>\<rparr>;
            w19 = sendProgress env sessionId S_complete (ascii ''Video analysis completed successfully'')
                    (ResultData finalResult) w18;
            w20 = emit (Write (Terminal (Final finalResult))) w19;
            w21 = emit End w20
        in (Inr (), Some videoPath, Some audioPath, w21))"

definition catch_block :: "env \<Rightarrow> jsstring \<Rightarrow> int \<Rightarrow> js_error \<Rightarrow> world \<Rightarrow> world" where
  "catch_block env sessionId startTime err w =
     (let (now, w1) = Date_now env w;
          (timestamp_now, w2) = Date_now env w1;
          errorResponse =
            \<lparr>er_sessionId = sessionId,
             er_success = False,
             er_error = message err,
             er_processingTime = dec (now - startTime) @ ascii ''ms'',
             er_timestamp = timestamp_now\<rparr>;
          w3 = sendProgress env sessionId S_error (ascii ''Analysis failed'') (ErrorData errorResponse) w2;
          w4 = emit (Write (Terminal (ErrorEvent errorResponse))) w3
      in emit End w4)"

text \<open>
  \<open>analyzeVideo\<close>: \<open>try\<close>, \<open>catch\<close>, \<open>finally\<close>. The result is what the caller of
  the method gets: \<open>Inl\<close> would be a rejected promise.
\<close>

definition analyzeVideo ::
  "env \<Rightarrow> VideoController \<Rightarrow> request \<Rightarrow> world \<Rightarrow> (js_error + unit) \<times> world" where
  "analyzeVideo env this req w =
     (let (startTime, w1) = Date_now env w;
          (sessionId, w2) = uuidv4 env w1;
          w3 = emit WriteHead w2;
          (outcome, videoPath, audioPath, w4) = try_block env this req sessionId startTime w3;
          w5 = (case outcome of
                  Inr u \<Rightarrow> w4
                | Inl e \<Rightarrow> catch_block env sessionId startTime e w4)
      in case cleanup env videoPath audioPath sessionId w5 of
           (Inl e, w6) \<Rightarrow> (Inl e, w6)
         | (Inr u, w6) \<Rightarrow> (Inr (), w6))"

section \<open>Notions of the specification\<close>

text \<open>
  A field of a parsed response, as the specification speaks of it: present only in an
  object that has it; valid when it is a string that is not empty after trimming.
\<close>

fun field_of :: "json \<Rightarrow> jsstring \<Rightarrow> jsval" where
  "field_of (JObj kvs) k = map_of kvs k"
| "field_of JNull k = None"
| "field_of (JBool b) k = None"
| "field_of (JNum n) k = None"
| "field_of (JStr s) k = None"
| "field_of (JArr xs) k = None"

definition valid_field :: "json \<Rightarrow> jsstring \<Rightarrow> bool" where
  "valid_field a k = (case field_of a k of Some (JStr s) \<Rightarrow> js_trim s \<noteq> [] | _ \<Rightarrow> False)"

text \<open>
  What one cleanup step does for a recorded path, given the listing of the temp directory:
  it asks whether the file exists and, if so, tries to remove it; the listing afterwards
  lacks the file unless the removal failed.
\<close>

fun deletion_attempt :: "jsstring option \<Rightarrow> jsstring list \<Rightarrow> effect list" where
  "deletion_attempt None fs = []"
| "deletion_attempt (Some p) fs =
     Exec (PathExists p) # (if p \<in> set fs then [Exec (Remove p)] else [])"

fun files_after_attempt :: "env \<Rightarrow> jsstring option \<Rightarrow> jsstring list \<Rightarrow> jsstring list" where
  "files_after_attempt env None fs = fs"
| "files_after_attempt env (Some p) fs =
     (if p \<in> set fs \<and> env_remove_fails env p = None then removeAll p fs else fs)"

section \<open>Sample environments\<close>

definition world0 :: world where
  "world0 = \<lparr>files = [], bucket = Map.empty, trace = [], uuids = 0, ticks = 0\<rparr>"

definition analysis_ok :: json where
  "analysis_ok =
     JObj [(ascii ''hook'', JStr (ascii ''Stop scrolling'')),
           (ascii ''cta'', JStr (ascii ''Subscribe now'')),
           (ascii ''usp'', JStr (ascii ''Only daily show'')),
           (ascii ''confidence'', JNum 1)]"

definition analysis_no_cta :: json where
  "analysis_no_cta =
     JObj [(ascii ''hook'', JStr (ascii ''Stop scrolling'')),
           (ascii ''usp'', JStr (ascii ''Only daily show''))]"

definition env_ok :: env where
  "env_ok =
     \<lparr>env_uuid = (\<lambda>n. if n = 0 then ascii ''s1'' else if n = 1 then ascii ''v1'' else ascii ''a1''),
      env_clock = (\<lambda>n. 1000 + 10 * int n),
      env_ytdlp = (\<lambda>args. \<lparr>yt_result = Inr [], yt_wrote = [ascii ''v1.mp4'']\<rparr>),
      env_readFile = (\<lambda>p. Inr [1, 2, 3]),
      env_storage_reject = (\<lambda>name. None),
      env_publicUrl = (\<lambda>b name. ascii ''https://cdn.example/'' @ b @ ascii ''/'' @ name),
      env_ffmpeg = (\<lambda>input output. FfmpegEnd),
      env_whisper = (\<lambda>p. Inr (ascii ''hello world'')),
      env_chat = (\<lambda>rq. Inr \<lparr>choices = [Some (ascii ''{}'')], total_tokens = 42\<rparr>),
      env_json_parse = (\<lambda>s. Inr analysis_ok),
      env_remove_fails = (\<lambda>p. None)\<rparr>"

definition env_no_cta :: env where
  "env_no_cta = env_ok\<lparr>env_json_parse := (\<lambda>s. Inr analysis_no_cta)\<rparr>"

definition ctl0 :: VideoController where
  "ctl0 = \<lparr>gpt = new_GPTService, bucketName = ascii ''content''\<rparr>"

definition req_ok :: request where
  "req_ok = \<lparr>body_url = Some (JStr (ascii ''https://youtu.be/abc123''))\<rparr>"

definition req_empty :: request where
  "req_empty = \<lparr>body_url = Some (JStr [])\<rparr>"

definition req_missing :: request where
  "req_missing = \<lparr>body_url = None\<rparr>"

text \<open>An extraction that fails after ffmpeg has begun to write its output.\<close>

definition env_partial :: env where
  "env_partial =
     env_ok\<lparr>env_ffmpeg :=
       (\<lambda>input output. FfmpegError (Error (ascii ''ffmpeg exited with code 1'')) True)\<rparr>"

text \<open>A file system that refuses to remove the downloaded video.\<close>

definition env_undeletable :: env where
  "env_undeletable =
     env_ok\<lparr>env_remove_fails :=
       (\<lambda>p. if p = ascii ''v1.mp4'' then Some (Error (ascii ''EPERM: operation not permitted''))
            else None)\<rparr>"

text \<open>A response whose hook is a blank string.\<close>

definition analysis_blank_hook :: json where
  "analysis_blank_hook =
     JObj [(ascii ''hook'', JStr (ascii '' '')),
           (ascii ''cta'', JStr (ascii ''Subscribe now'')),
           (ascii ''usp'', JStr (ascii ''Only daily show''))]"

text \<open>The result envelope of the session of \<open>req_ok\<close> in \<open>env_ok\<close>.\<close>

definition final_ok :: final_result where
  "final_ok =
     \<lparr>fr_sessionId = ascii ''s1'',
      fr_success = True,
      fr_processingTime = dec 130 @ ascii ''ms'',
      fr_videoUrl = ascii ''https://cdn.example/'' @ ascii ''content'' @ ascii ''/'' @
                    ascii ''s1'' @ ascii ''_'' @ dec 1050 @ ascii ''.mp4'',
      fr_transcript = ascii ''hello world'',
      fr_analysis = analysis_ok,
      fr_metadata =
        \<lparr>originalUrl = Some (JStr (ascii ''https://youtu.be/abc123'')),
         processedAt = 1140,
         steps = [ascii ''download'', ascii ''upload'', ascii ''extraction'',
                  ascii ''transcription'', ascii ''analysis'']\<rparr>\<rparr>"

section \<open>Views of the trace\<close>

text \<open>
  The coordinator's view of a trace: the events written to the stream without their
  session id, message and time stamp, the end of the response, the stage markers and the
  entry of cleanup with the two recorded paths. Calls of tools and services are left out.
\<close>

datatype mark =
    M_progress step payload
  | M_terminal terminal
  | M_end
  | M_invoke stage
  | M_returned stage
  | M_threw stage js_error
  | M_cleanup "jsstring option" "jsstring option"

fun mark_of :: "effect \<Rightarrow> mark list" where
  "mark_of WriteHead = []"
| "mark_of (Write (Progress p)) = [M_progress (pe_step p) (pe_data p)]"
| "mark_of (Write (Terminal t)) = [M_terminal t]"
| "mark_of End = [M_end]"
| "mark_of (Invoke st) = [M_invoke st]"
| "mark_of (Returned st) = [M_returned st]"
| "mark_of (Threw st e) = [M_threw st e]"
| "mark_of (Exec c) = []"
| "mark_of (CleanupStart videoPath audioPath) = [M_cleanup videoPath audioPath]"

definition shape :: "effect list \<Rightarrow> mark list" where
  "shape es = concat (map mark_of es)"

text \<open>The events written to the response, in order.\<close>

fun written :: "effect \<Rightarrow> sse list" where
  "written (Write x) = [x]"
| "written WriteHead = []"
| "written End = []"
| "written (Invoke st) = []"
| "written (Returned st) = []"
| "written (Threw st e) = []"
| "written (Exec c) = []"
| "written (CleanupStart videoPath audioPath) = []"

definition stream :: "effect list \<Rightarrow> sse list" where
  "stream es = concat (map written es)"

fun is_Progress :: "sse \<Rightarrow> bool" where
  "is_Progress (Progress p) = True"
| "is_Progress (Terminal t) = False"

fun is_Terminal :: "sse \<Rightarrow> bool" where
  "is_Terminal (Progress p) = False"
| "is_Terminal (Terminal t) = True"

text \<open>
  The marks of a stage that succeeds with the given summary data, and of a stage that
  fails with the given error.
\<close>

definition stage_ok_shape :: "stage \<Rightarrow> payload \<Rightarrow> mark list" where
  "stage_ok_shape st summary =
     [M_progress (step_of st) NoData, M_invoke st, M_returned st, M_progress (step_of st) summary]"

definition stage_fail_shape :: "stage \<Rightarrow> js_error \<Rightarrow> mark list" where
  "stage_fail_shape st e = [M_progress (step_of st) NoData, M_invoke st, M_threw st e]"

fun stages_before :: "stage \<Rightarrow> stage list" where
  "stages_before Download = []"
| "stages_before Upload = [Download]"
| "stages_before Extraction = [Download, Upload]"
| "stages_before Transcription = [Download, Upload, Extraction]"
| "stages_before Analysis = [Download, Upload, Extraction, Transcription]"

fun stages_after :: "stage \<Rightarrow> stage list" where
  "stages_after Download = [Upload, Extraction, Transcription, Analysis]"
| "stages_after Upload = [Extraction, Transcription, Analysis]"
| "stages_after Extraction = [Transcription, Analysis]"
| "stages_after Transcription = [Analysis]"
| "stages_after Analysis = []"

text \<open>The end of a failed session: the error progress event, the terminal error event,
  the end of the response, cleanup.\<close>

definition error_tail :: "error_response \<Rightarrow> jsstring option \<Rightarrow> jsstring option \<Rightarrow> mark list" where
  "error_tail er videoPath audioPath =
     [M_progress S_error (ErrorData er), M_terminal (ErrorEvent er), M_end,
      M_cleanup videoPath audioPath]"

definition all_stages :: "stage list" where
  "all_stages = [Download, Upload, Extraction, Transcription, Analysis]"

text \<open>The kind of summary data the progress event after each stage carries.\<close>

fun summary_for :: "stage \<Rightarrow> payload \<Rightarrow> bool" where
  "summary_for Download (PathData p) = True"
| "summary_for Upload (PublicUrlData u) = True"
| "summary_for Extraction (PathData p) = True"
| "summary_for Transcription (TranscriptData n preview) = True"
| "summary_for Analysis (AnalysisData a) = True"
| "summary_for st d = False"

section \<open>Strings\<close>

lemma of_char_less_65536: "of_char c < (65536::nat)"
proof -
  have "of_char c < (256::nat)" by (rule nat_of_char_less_256)
  then show ?thesis by linarith
qed

lemma ascii_unit_eq_iff:
  "(of_nat (of_char c) :: 16 word) = of_nat (of_char d) \<longleftrightarrow> c = d"
  by (simp add: word_of_nat_eq_iff take_bit_nat_eq_self of_char_less_65536)

lemma ascii_eq_iff [simp]: "ascii a = ascii b \<longleftrightarrow> a = b"
proof (induction a arbitrary: b)
  case Nil
  show ?case by (auto simp: ascii_def)
next
  case (Cons c cs)
  then show ?case by (cases b) (auto simp: ascii_def ascii_unit_eq_iff)
qed

lemma ascii_Nil_iff [simp]: "ascii a = [] \<longleftrightarrow> a = []" "[] = ascii a \<longleftrightarrow> a = []"
  by (auto simp: ascii_def)

lemma prefix_ascii [simp]: "prefix (ascii a) (ascii b) \<longleftrightarrow> prefix a b"
proof (induction a arbitrary: b)
  case Nil
  show ?case by (simp add: ascii_def)
next
  case (Cons c cs)
  then show ?case by (cases b) (auto simp: ascii_def ascii_unit_eq_iff)
qed

lemma js_trim_Nil [simp]: "js_trim [] = []"
  by (simp add: js_trim_def)

section \<open>Validation of the analysis response\<close>

lemma check_field_ok_iff: "check_field a k = Inr () \<longleftrightarrow> valid_field a k"
proof (cases a)
  case (JObj kvs)
  show ?thesis
  proof (cases "map_of kvs k")
    case None
    with JObj show ?thesis by (simp add: check_field_def valid_field_def)
  next
    case (Some v)
    with JObj show ?thesis
      by (cases v) (auto simp: check_field_def valid_field_def)
  qed
qed (simp_all add: check_field_def valid_field_def)

lemma validate_fields_ok_iff:
  "validate_fields a ks = Inr () \<longleftrightarrow> (\<forall>k \<in> set ks. valid_field a k)"
proof (induction ks)
  case Nil
  show ?case by simp
next
  case (Cons k ks)
  show ?case
  proof (cases "check_field a k")
    case (Inl e)
    then have "\<not> valid_field a k" using check_field_ok_iff [of a k] by simp
    with Inl show ?thesis by simp
  next
    case (Inr u)
    then have "valid_field a k" using check_field_ok_iff [of a k] by simp
    with Inr Cons.IH show ?thesis by simp
  qed
qed

lemma validate_ok_iff:
  "validateAnalysisResponse a = Inr () \<longleftrightarrow> (\<forall>k \<in> set requiredFields. valid_field a k)"
  by (simp add: validateAnalysisResponse_def validate_fields_ok_iff)

lemma analyzeContent_Inr_D:
  assumes "fst (analyzeContent env this transcript w) = Inr result"
  shows "validateAnalysisResponse result = Inr ()"
  using assms
  by (auto simp: analyzeContent_def Let_def split: sum.splits list.splits option.splits)

lemma trim_sample_hook: "js_trim (ascii ''Stop scrolling'') \<noteq> []"
  by (simp add: js_trim_def ascii_def is_js_space_def)

lemma trim_sample_cta: "js_trim (ascii ''Subscribe now'') \<noteq> []"
  by (simp add: js_trim_def ascii_def is_js_space_def)

lemma trim_sample_usp: "js_trim (ascii ''Only daily show'') \<noteq> []"
  by (simp add: js_trim_def ascii_def is_js_space_def)

text \<open>
  C5. Whenever the response of the model parses to a value in which one of \<open>hook\<close>,
  \<open>cta\<close>, \<open>usp\<close> is missing, is not a string, or is empty after trimming,
  \<open>analyzeContent\<close> fails; and whenever it returns a result, each of the three fields
  of the result is a string that is not empty, also after trimming.
\<close>

theorem analyzeContent_rejects_incomplete:
  "(env_chat env (chat_request_of this (createAnalysisPrompt transcript)) = Inr completion \<and>
    choices completion = Some response # others \<and>
    env_json_parse env response = Inr analysis \<and>
    (\<exists>k \<in> set requiredFields. \<not> valid_field analysis k)
    \<longrightarrow> (\<exists>e. fst (analyzeContent env this transcript w) = Inl e))
   \<and>
   (fst (analyzeContent env this transcript w) = Inr result
    \<longrightarrow> (\<forall>k \<in> set requiredFields.
          \<exists>s. field_of result k = Some (JStr s) \<and> s \<noteq> [] \<and> js_trim s \<noteq> []))"
proof (intro conjI impI)
  assume h: "env_chat env (chat_request_of this (createAnalysisPrompt transcript)) = Inr completion \<and>
    choices completion = Some response # others \<and>
    env_json_parse env response = Inr analysis \<and>
    (\<exists>k \<in> set requiredFields. \<not> valid_field analysis k)"
  then have "validateAnalysisResponse analysis \<noteq> Inr ()"
    by (simp add: validate_ok_iff)
  then obtain e where "validateAnalysisResponse analysis = Inl e"
    by (cases "validateAnalysisResponse analysis") auto
  with h show "\<exists>e. fst (analyzeContent env this transcript w) = Inl e"
    by (simp add: analyzeContent_def Let_def)
next
  assume "fst (analyzeContent env this transcript w) = Inr result"
  then have v: "\<forall>k \<in> set requiredFields. valid_field result k"
    using analyzeContent_Inr_D validate_ok_iff by blast
  show "\<forall>k \<in> set requiredFields.
          \<exists>s. field_of result k = Some (JStr s) \<and> s \<noteq> [] \<and> js_trim s \<noteq> []"
  proof
    fix k assume "k \<in> set requiredFields"
    with v have "valid_field result k" by blast
    then obtain s where "field_of result k = Some (JStr s)" "js_trim s \<noteq> []"
      by (auto simp: valid_field_def split: option.splits json.splits)
    moreover from this have "s \<noteq> []" by auto
    ultimately show "\<exists>s. field_of result k = Some (JStr s) \<and> s \<noteq> [] \<and> js_trim s \<noteq> []"
      by blast
  qed
qed

theorem analyzeContent_rejects_incomplete_witness:
  "ascii ''cta'' \<in> set requiredFields \<and> \<not> valid_field analysis_no_cta (ascii ''cta'') \<and>
   (\<exists>e. fst (analyzeContent env_no_cta new_GPTService (ascii ''hello world'') world0) = Inl e) \<and>
   fst (analyzeContent env_ok new_GPTService (ascii ''hello world'') world0) = Inr analysis_ok \<and>
   (\<exists>s. field_of analysis_ok (ascii ''cta'') = Some (JStr s) \<and> s \<noteq> [] \<and> js_trim s \<noteq> [])"
proof -
  have k: "ascii ''cta'' \<in> set requiredFields"
    by (simp add: requiredFields_def)
  have bad: "\<not> valid_field analysis_no_cta (ascii ''cta'')"
    by (simp add: valid_field_def analysis_no_cta_def)
  have h1: "env_chat env_no_cta (chat_request_of new_GPTService (createAnalysisPrompt (ascii ''hello world'')))
              = Inr \<lparr>choices = [Some (ascii ''{}'')], total_tokens = 42\<rparr> \<and>
            choices \<lparr>choices = [Some (ascii ''{}'')], total_tokens = 42\<rparr> = Some (ascii ''{}'') # [] \<and>
            env_json_parse env_no_cta (ascii ''{}'') = Inr analysis_no_cta \<and>
            (\<exists>k \<in> set requiredFields. \<not> valid_field analysis_no_cta k)"
    using k bad by (auto simp: env_no_cta_def env_ok_def)
  have h2: "fst (analyzeContent env_ok new_GPTService (ascii ''hello world'') world0) = Inr analysis_ok"
    by (simp add: analyzeContent_def env_ok_def Let_def validateAnalysisResponse_def
          requiredFields_def check_field_def analysis_ok_def
          trim_sample_hook trim_sample_cta trim_sample_usp)
  from analyzeContent_rejects_incomplete
         [of env_no_cta new_GPTService "ascii ''hello world''"
             "\<lparr>choices = [Some (ascii ''{}'')], total_tokens = 42\<rparr>" "ascii ''{}'' " "[]"
             analysis_no_cta world0 analysis_ok] h1
  have c1: "\<exists>e. fst (analyzeContent env_no_cta new_GPTService (ascii ''hello world'') world0) = Inl e"
    by blast
  from analyzeContent_rejects_incomplete
         [of env_ok new_GPTService "ascii ''hello world''"
             "\<lparr>choices = [Some (ascii ''{}'')], total_tokens = 42\<rparr>" "ascii ''{}'' " "[]"
             analysis_ok world0 analysis_ok] h2 k
  have c2: "\<exists>s. field_of analysis_ok (ascii ''cta'') = Some (JStr s) \<and> s \<noteq> [] \<and> js_trim s \<noteq> []"
    by blast
  from k bad c1 h2 c2 show ?thesis by blast
qed

section \<open>The analysis client\<close>

lemma trace_emit [simp]: "trace (emit e w) = trace w @ [e]"
  by (simp add: emit_def)

lemma analyzeContent_trace:
  "trace (snd (analyzeContent env this transcript w)) =
     trace w @ [Exec (ChatCreate (chat_request_of this (createAnalysisPrompt transcript)))]"
  by (simp add: analyzeContent_def Let_def split: sum.splits list.splits option.splits)

text \<open>
  C6. Whatever temperature is passed and whether the call returns or fails,
  \<open>generateAlternativeAnalysis\<close> leaves the instance as it was: the temperature, the
  model and the token limit are those before the call. The request of the alternative
  call carries the override, and the request of a following \<open>analyzeContent\<close> call
  carries the original temperature.
\<close>

theorem generateAlternativeAnalysis_restores_config:
  "generateAlternativeAnalysis env this transcript temperature_arg w = (result, this', w') \<Longrightarrow>
     this' = this \<and>
     temperature this' = temperature this \<and> model this' = model this \<and>
     maxTokens this' = maxTokens this \<and>
     (\<exists>rq. trace w' = trace w @ [Exec (ChatCreate rq)] \<and>
           rq_temperature rq = (case temperature_arg of None \<Rightarrow> 12 / 10 | Some t \<Rightarrow> t)) \<and>
     (\<exists>rq. trace (snd (analyzeContent env this' transcript' w')) = trace w' @ [Exec (ChatCreate rq)] \<and>
           rq_temperature rq = temperature this \<and> rq_model rq = model this \<and>
           rq_max_tokens rq = maxTokens this)"
proof -
  assume g: "generateAlternativeAnalysis env this transcript temperature_arg w = (result, this', w')"
  define temp where "temp = (case temperature_arg of None \<Rightarrow> 12 / 10 | Some t \<Rightarrow> t)"
  from g have this': "this' = this\<lparr>temperature := temp\<rparr>\<lparr>temperature := temperature this\<rparr>"
    and w': "w' = snd (analyzeContent env (this\<lparr>temperature := temp\<rparr>) transcript w)"
    by (auto simp: generateAlternativeAnalysis_def Let_def temp_def split: prod.splits)
  from this' have same: "this' = this" by simp
  have alt: "trace w' = trace w @
       [Exec (ChatCreate (chat_request_of (this\<lparr>temperature := temp\<rparr>) (createAnalysisPrompt transcript)))]"
    unfolding w' by (rule analyzeContent_trace)
  have alt_temp:
    "rq_temperature (chat_request_of (this\<lparr>temperature := temp\<rparr>) (createAnalysisPrompt transcript)) = temp"
    by (simp add: chat_request_of_def)
  have nxt: "trace (snd (analyzeContent env this' transcript' w')) =
       trace w' @ [Exec (ChatCreate (chat_request_of this (createAnalysisPrompt transcript')))]"
    unfolding same by (rule analyzeContent_trace)
  have nxt_rq: "rq_temperature (chat_request_of this (createAnalysisPrompt transcript')) = temperature this"
      "rq_model (chat_request_of this (createAnalysisPrompt transcript')) = model this"
      "rq_max_tokens (chat_request_of this (createAnalysisPrompt transcript')) = maxTokens this"
    by (simp_all add: chat_request_of_def)
  from same alt alt_temp nxt nxt_rq show ?thesis
    unfolding temp_def by blast
qed

theorem generateAlternativeAnalysis_restores_config_witness:
  "(\<exists>e. fst (generateAlternativeAnalysis env_no_cta new_GPTService (ascii ''hello world'') (Some (3 / 2)) world0) = Inl e) \<and>
   temperature (fst (snd (generateAlternativeAnalysis env_no_cta new_GPTService (ascii ''hello world'') (Some (3 / 2)) world0))) = 7 / 10 \<and>
   fst (generateAlternativeAnalysis env_ok new_GPTService (ascii ''hello world'') None world0) = Inr analysis_ok \<and>
   temperature (fst (snd (generateAlternativeAnalysis env_ok new_GPTService (ascii ''hello world'') None world0))) = 7 / 10"
proof -
  let ?bad = "generateAlternativeAnalysis env_no_cta new_GPTService (ascii ''hello world'') (Some (3 / 2)) world0"
  let ?good = "generateAlternativeAnalysis env_ok new_GPTService (ascii ''hello world'') None world0"
  have fails: "\<exists>e. fst ?bad = Inl e"
    by (simp add: generateAlternativeAnalysis_def analyzeContent_def env_no_cta_def env_ok_def
          Let_def validateAnalysisResponse_def requiredFields_def check_field_def
          analysis_no_cta_def trim_sample_hook split_beta)
  have returns: "fst ?good = Inr analysis_ok"
    by (simp add: generateAlternativeAnalysis_def analyzeContent_def env_ok_def
          Let_def validateAnalysisResponse_def requiredFields_def check_field_def
          analysis_ok_def trim_sample_hook trim_sample_cta trim_sample_usp split_beta)
  have b: "?bad = (fst ?bad, fst (snd ?bad), snd (snd ?bad))" by simp
  have g: "?good = (fst ?good, fst (snd ?good), snd (snd ?good))" by simp
  have t0: "temperature new_GPTService = 7 / 10" by (simp add: new_GPTService_def)
  from generateAlternativeAnalysis_restores_config [OF b]
  have "temperature (fst (snd ?bad)) = temperature new_GPTService" by blast
  moreover from generateAlternativeAnalysis_restores_config [OF g]
  have "temperature (fst (snd ?good)) = temperature new_GPTService" by blast
  ultimately show ?thesis using fails returns t0 by simp
qed

section \<open>Traces of the stages and of the coordinator\<close>

lemma shape_simps [simp]:
  "shape [] = []" "shape (e # es) = mark_of e @ shape es" "shape (xs @ ys) = shape xs @ shape ys"
  by (simp_all add: shape_def)

lemma stream_simps [simp]:
  "stream [] = []" "stream (e # es) = written e @ stream es" "stream (xs @ ys) = stream xs @ stream ys"
  by (simp_all add: stream_def)

lemma trace_uuidv4 [simp]: "trace (snd (uuidv4 env w)) = trace w"
  by (simp add: uuidv4_def)

lemma trace_Date_now [simp]: "trace (snd (Date_now env w)) = trace w"
  by (simp add: Date_now_def)

lemma trace_fs_create [simp]: "trace (fs_create name w) = trace w"
  by (simp add: fs_create_def)

lemma trace_fold_fs_create [simp]: "trace (fold fs_create names w) = trace w"
  by (induction names arbitrary: w) simp_all

lemma trace_fs_pathExists [simp]: "trace (snd (fs_pathExists p w)) = trace w @ [Exec (PathExists p)]"
  by (simp add: fs_pathExists_def)

lemma trace_fs_remove [simp]: "trace (snd (fs_remove env p w)) = trace w @ [Exec (Remove p)]"
  by (simp add: fs_remove_def Let_def split: option.splits)

lemma trace_fs_readFile [simp]: "trace (snd (fs_readFile env p w)) = trace w @ [Exec (ReadFile p)]"
  by (simp add: fs_readFile_def Let_def)

lemma trace_storage_upload [simp]:
  "trace (snd (storage_upload env b name body opts w)) = trace w @ [Exec (StorageUpload b name body opts)]"
  by (simp add: storage_upload_def Let_def split: option.splits)

text \<open>The stages only add calls to the trace: every view that ignores calls is unchanged.\<close>

lemma downloadVideo_view:
  assumes "\<And>c. f (Exec c) = []"
  shows "concat (map f (trace (snd (downloadVideo env url w)))) = concat (map f (trace w))"
  by (simp add: downloadVideo_def Let_def split_beta assms split: sum.splits option.splits)

lemma uploadToSupabase_view:
  assumes "\<And>c. f (Exec c) = []"
  shows "concat (map f (trace (snd (uploadToSupabase env this videoPath sessionId w)))) = concat (map f (trace w))"
  by (simp add: uploadToSupabase_def Let_def split_beta assms split: sum.splits option.splits)

lemma extractAudio_view:
  assumes "\<And>c. f (Exec c) = []"
  shows "concat (map f (trace (snd (extractAudio env videoPath w)))) = concat (map f (trace w))"
  by (simp add: extractAudio_def Let_def split_beta assms split: bool.splits ffmpeg_outcome.splits)

lemma transcribeAudio_view:
  assumes "\<And>c. f (Exec c) = []"
  shows "concat (map f (trace (snd (transcribeAudio env audioPath w)))) = concat (map f (trace w))"
  by (simp add: transcribeAudio_def Let_def split_beta assms split: bool.splits sum.splits)

lemma analyzeContent_view:
  assumes "\<And>c. f (Exec c) = []"
  shows "concat (map f (trace (snd (analyzeContent env this transcript w)))) = concat (map f (trace w))"
  by (simp add: analyzeContent_trace assms)

lemma run_stage_view:
  assumes "\<And>u. concat (map f (trace (snd (body u)))) = concat (map f (trace u))"
  shows "concat (map f (trace (snd (run_stage st body w)))) =
           concat (map f (trace w)) @ f (Invoke st) @
           (case fst (run_stage st body w) of Inl e \<Rightarrow> f (Threw st e) | Inr v \<Rightarrow> f (Returned st))"
  by (simp add: run_stage_def split_beta assms split: sum.splits)

lemma sendProgress_trace:
  "trace (sendProgress env sessionId step msg data w) =
     trace w @ [Write (Progress \<lparr>pe_sessionId = sessionId, pe_step = step, pe_message = msg,
                                 pe_timestamp = env_clock env (ticks w), pe_data = data\<rparr>)]"
  by (simp add: sendProgress_def Date_now_def)

lemma stage_shapes [simp]:
  "shape (trace (snd (downloadVideo env url w))) = shape (trace w)"
  "shape (trace (snd (uploadToSupabase env this videoPath sessionId w))) = shape (trace w)"
  "shape (trace (snd (extractAudio env videoPath w))) = shape (trace w)"
  "shape (trace (snd (transcribeAudio env audioPath w))) = shape (trace w)"
  "shape (trace (snd (analyzeContent env g transcript w))) = shape (trace w)"
  unfolding shape_def
  by (simp_all add: downloadVideo_view uploadToSupabase_view extractAudio_view
        transcribeAudio_view analyzeContent_view)

lemma run_stage_shape:
  assumes "\<And>u. shape (trace (snd (body u))) = shape (trace u)"
  shows "shape (trace (snd (run_stage st body w))) =
           shape (trace w) @ M_invoke st #
           (case fst (run_stage st body w) of Inl e \<Rightarrow> [M_threw st e] | Inr v \<Rightarrow> [M_returned st])"
  using run_stage_view [of mark_of body st w] assms
  by (simp add: shape_def split: sum.splits)

lemmas run_stage_shapes [simp] =
  run_stage_shape [of "downloadVideo env url" for env url, OF stage_shapes(1)]
  run_stage_shape [of "uploadToSupabase env this videoPath sessionId" for env this videoPath sessionId, OF stage_shapes(2)]
  run_stage_shape [of "extractAudio env videoPath" for env videoPath, OF stage_shapes(3)]
  run_stage_shape [of "transcribeAudio env audioPath" for env audioPath, OF stage_shapes(4)]
  run_stage_shape [of "analyzeContent env g transcript" for env g transcript, OF stage_shapes(5)]

lemma run_stage_fst: "fst (run_stage st body w) = fst (body (emit (Invoke st) w))"
  by (simp add: run_stage_def split_beta split: sum.splits)

lemma sendProgress_shape [simp]:
  "shape (trace (sendProgress env sessionId step msg data w)) = shape (trace w) @ [M_progress step data]"
  by (simp add: sendProgress_trace)

lemma try_block_falsy:
  "\<not> truthy (body_url req) \<Longrightarrow>
     try_block env this req sid start w = (Inl (Error (ascii ''Video URL is required'')), None, None, w)"
  by (simp add: try_block_def)

lemma try_block_shape:
  assumes "truthy (body_url req)"
    and "try_block env this req sid start w = (r, vp, ap, w')"
  shows
   "(\<exists>e. r = Inl e \<and> vp = None \<and> ap = None \<and>
         shape (trace w') = shape (trace w) @ M_progress S_validation (UrlData (body_url req)) #
           stage_fail_shape Download e)
    \<or> (\<exists>e p. r = Inl e \<and> vp = Some p \<and> ap = None \<and>
         shape (trace w') = shape (trace w) @ M_progress S_validation (UrlData (body_url req)) #
           stage_ok_shape Download (PathData p) @ stage_fail_shape Upload e)
    \<or> (\<exists>e p u. r = Inl e \<and> vp = Some p \<and> ap = None \<and>
         shape (trace w') = shape (trace w) @ M_progress S_validation (UrlData (body_url req)) #
           stage_ok_shape Download (PathData p) @ stage_ok_shape Upload (PublicUrlData u) @
           stage_fail_shape Extraction e)
    \<or> (\<exists>e p u a. r = Inl e \<and> vp = Some p \<and> ap = Some a \<and>
         shape (trace w') = shape (trace w) @ M_progress S_validation (UrlData (body_url req)) #
           stage_ok_shape Download (PathData p) @ stage_ok_shape Upload (PublicUrlData u) @
           stage_ok_shape Extraction (PathData a) @ stage_fail_shape Transcription e)
    \<or> (\<exists>e p u a n pv. r = Inl e \<and> vp = Some p \<and> ap = Some a \<and>
         shape (trace w') = shape (trace w) @ M_progress S_validation (UrlData (body_url req)) #
           stage_ok_shape Download (PathData p) @ stage_ok_shape Upload (PublicUrlData u) @
           stage_ok_shape Extraction (PathData a) @
           stage_ok_shape Transcription (TranscriptData n pv) @
           stage_fail_shape Analysis e)
    \<or> (\<exists>p u a t an fr. r = Inr () \<and> vp = Some p \<and> ap = Some a \<and>
         shape (trace w') = shape (trace w) @ M_progress S_validation (UrlData (body_url req)) #
           stage_ok_shape Download (PathData p) @ stage_ok_shape Upload (PublicUrlData u) @
           stage_ok_shape Extraction (PathData a) @
           stage_ok_shape Transcription (TranscriptData (length t) (take 100 t @ ascii ''...'')) @
           stage_ok_shape Analysis (AnalysisData an) @
           [M_progress S_complete (ResultData fr), M_terminal (Final fr), M_end] \<and>
         fr_analysis fr = an \<and> fr_transcript fr = t \<and> fr_videoUrl fr = u \<and> fr_success fr \<and>
         (\<exists>wx. fst (analyzeContent env (gpt this) t wx) = Inr an))"
proof -
  let ?T = "try_block env this req sid start w"
  have eqs: "r = fst ?T" "vp = fst (snd ?T)" "ap = fst (snd (snd ?T))" "w' = snd (snd (snd ?T))"
    using assms(2) by simp_all
  show ?thesis
    unfolding eqs using assms(1)
    by (auto simp: try_block_def Let_def split_beta stage_ok_shape_def stage_fail_shape_def
          run_stage_fst split: sum.splits)
qed

lemma catch_block_trace:
  "trace (catch_block env sid start e w) =
     trace w @
     [Write (Progress \<lparr>pe_sessionId = sid, pe_step = S_error, pe_message = ascii ''Analysis failed'',
                        pe_timestamp = env_clock env (Suc (Suc (ticks w))),
                        pe_data = ErrorData
                          \<lparr>er_sessionId = sid, er_success = False, er_error = message e,
                           er_processingTime = dec (env_clock env (ticks w) - start) @ ascii ''ms'',
                           er_timestamp = env_clock env (Suc (ticks w))\<rparr>\<rparr>),
      Write (Terminal (ErrorEvent
                          \<lparr>er_sessionId = sid, er_success = False, er_error = message e,
                           er_processingTime = dec (env_clock env (ticks w) - start) @ ascii ''ms'',
                           er_timestamp = env_clock env (Suc (ticks w))\<rparr>)),
      End]"
  by (simp add: catch_block_def sendProgress_def Date_now_def Let_def)

lemma catch_block_files [simp]: "files (catch_block env sid start e w) = files w"
  by (simp add: catch_block_def sendProgress_def Date_now_def Let_def emit_def)

lemma downloader_cleanup_result [simp]: "fst (downloader_cleanup env p w) = Inr ()"
  by (simp add: downloader_cleanup_def fs_pathExists_def split_beta split: bool.splits sum.splits)

lemma transcriber_cleanup_result [simp]: "fst (transcriber_cleanup env p w) = Inr ()"
  by (simp add: transcriber_cleanup_def fs_pathExists_def split_beta split: bool.splits sum.splits)

lemma files_emit [simp]: "files (emit e w) = files w"
  by (simp add: emit_def)

lemma downloader_cleanup_trace:
  "trace (snd (downloader_cleanup env p w)) = trace w @ deletion_attempt (Some p) (files w)"
  by (simp add: downloader_cleanup_def fs_pathExists_def split_beta split: bool.splits sum.splits)

lemma transcriber_cleanup_trace:
  "trace (snd (transcriber_cleanup env p w)) = trace w @ deletion_attempt (Some p) (files w)"
  by (simp add: transcriber_cleanup_def fs_pathExists_def split_beta split: bool.splits sum.splits)

lemma downloader_cleanup_files:
  "files (snd (downloader_cleanup env p w)) = files_after_attempt env (Some p) (files w)"
  by (simp add: downloader_cleanup_def fs_pathExists_def fs_remove_def Let_def split_beta
        split: bool.splits sum.splits option.splits)

lemma transcriber_cleanup_files:
  "files (snd (transcriber_cleanup env p w)) = files_after_attempt env (Some p) (files w)"
  by (simp add: transcriber_cleanup_def fs_pathExists_def fs_remove_def Let_def split_beta
        split: bool.splits sum.splits option.splits)

lemma cleanup_result [simp]: "fst (cleanup env vp ap sid w) = Inr ()"
  by (simp add: cleanup_def Let_def split_beta split: sum.splits option.splits)

lemma cleanup_trace:
  "trace (snd (cleanup env vp ap sid w)) =
     trace w @ CleanupStart vp ap # deletion_attempt vp (files w) @
       deletion_attempt ap (files_after_attempt env vp (files w))"
  by (cases vp; cases ap)
     (simp_all add: cleanup_def Let_def split_beta downloader_cleanup_trace transcriber_cleanup_trace
        downloader_cleanup_files split: sum.splits)

lemma cleanup_files:
  "files (snd (cleanup env vp ap sid w)) =
     files_after_attempt env ap (files_after_attempt env vp (files w))"
  by (cases vp; cases ap)
     (simp_all add: cleanup_def Let_def split_beta downloader_cleanup_files transcriber_cleanup_files
        split: sum.splits)

lemma analyzeVideo_result: "fst (analyzeVideo env this req w) = Inr ()"
  by (simp add: analyzeVideo_def Let_def split_beta split: sum.splits)

lemma shape_deletion_attempt [simp]: "shape (deletion_attempt x fs) = []"
  by (cases x) simp_all

lemma session_cases:
  fixes env this req w
  defines "w' \<equiv> snd (analyzeVideo env this req w)"
  defines "V \<equiv> M_progress S_validation (UrlData (body_url req))"
  shows
   "\<exists>vp ap pre fs ms.
      trace w' = pre @ CleanupStart vp ap # deletion_attempt vp fs @
                   deletion_attempt ap (files_after_attempt env vp fs) \<and>
      files w' = files_after_attempt env ap (files_after_attempt env vp fs) \<and>
      shape (trace w') = shape (trace w) @ ms \<and>
      ((\<not> truthy (body_url req) \<and> vp = None \<and> ap = None \<and>
          (\<exists>er. ms = error_tail er None None \<and>
                er_error er = ascii ''Video URL is required'' \<and>
                (\<exists>n. er_processingTime er = dec (env_clock env n - env_clock env (ticks w)) @ ascii ''ms'')))
       \<or> (truthy (body_url req) \<and> vp = None \<and> ap = None \<and>
          (\<exists>e er. ms = V # stage_fail_shape Download e @ error_tail er None None \<and>
                er_error er = message e \<and>
                (\<exists>n. er_processingTime er = dec (env_clock env n - env_clock env (ticks w)) @ ascii ''ms'')))
       \<or> (truthy (body_url req) \<and> ap = None \<and>
          (\<exists>e er p. vp = Some p \<and>
                ms = V # stage_ok_shape Download (PathData p) @ stage_fail_shape Upload e @
                       error_tail er (Some p) None \<and>
                er_error er = message e \<and>
                (\<exists>n. er_processingTime er = dec (env_clock env n - env_clock env (ticks w)) @ ascii ''ms'')))
       \<or> (truthy (body_url req) \<and> ap = None \<and>
          (\<exists>e er p u. vp = Some p \<and>
                ms = V # stage_ok_shape Download (PathData p) @
                       stage_ok_shape Upload (PublicUrlData u) @ stage_fail_shape Extraction e @
                       error_tail er (Some p) None \<and>
                er_error er = message e \<and>
                (\<exists>n. er_processingTime er = dec (env_clock env n - env_clock env (ticks w)) @ ascii ''ms'')))
       \<or> (truthy (body_url req) \<and>
          (\<exists>e er p u a. vp = Some p \<and> ap = Some a \<and>
                ms = V # stage_ok_shape Download (PathData p) @
                       stage_ok_shape Upload (PublicUrlData u) @
                       stage_ok_shape Extraction (PathData a) @ stage_fail_shape Transcription e @
                       error_tail er (Some p) (Some a) \<and>
                er_error er = message e \<and>
                (\<exists>n. er_processingTime er = dec (env_clock env n - env_clock env (ticks w)) @ ascii ''ms'')))
       \<or> (truthy (body_url req) \<and>
          (\<exists>e er p u a n pv. vp = Some p \<and> ap = Some a \<and>
                ms = V # stage_ok_shape Download (PathData p) @
                       stage_ok_shape Upload (PublicUrlData u) @
                       stage_ok_shape Extraction (PathData a) @
                       stage_ok_shape Transcription (TranscriptData n pv) @
                       stage_fail_shape Analysis e @ error_tail er (Some p) (Some a) \<and>
                er_error er = message e \<and>
                (\<exists>n. er_processingTime er = dec (env_clock env n - env_clock env (ticks w)) @ ascii ''ms'')))
       \<or> (truthy (body_url req) \<and>
          (\<exists>p u a t an fr. vp = Some p \<and> ap = Some a \<and>
                ms = V # stage_ok_shape Download (PathData p) @
                       stage_ok_shape Upload (PublicUrlData u) @
                       stage_ok_shape Extraction (PathData a) @
                       stage_ok_shape Transcription (TranscriptData (length t) (take 100 t @ ascii ''...'')) @
                       stage_ok_shape Analysis (AnalysisData an) @
                       [M_progress S_complete (ResultData fr), M_terminal (Final fr), M_end,
                        M_cleanup (Some p) (Some a)] \<and>
                fr_analysis fr = an \<and> fr_transcript fr = t \<and> fr_videoUrl fr = u \<and> fr_success fr \<and>
                (\<exists>wx. fst (analyzeContent env (gpt this) t wx) = Inr an))))"
proof -
  define start where "start = fst (Date_now env w)"
  define w1 where "w1 = snd (Date_now env w)"
  define sid where "sid = fst (uuidv4 env w1)"
  define w3 where "w3 = emit WriteHead (snd (uuidv4 env w1))"
  obtain r vp ap w4 where T: "try_block env this req sid start w3 = (r, vp, ap, w4)"
    by (rule prod_cases4)
  define w5 where "w5 = (case r of Inr u \<Rightarrow> w4 | Inl e \<Rightarrow> catch_block env sid start e w4)"
  have w': "w' = snd (cleanup env vp ap sid w5)"
    unfolding w'_def w5_def
    using T [unfolded sid_def start_def w3_def w1_def]
    by (simp add: analyzeVideo_def Let_def split_beta sid_def start_def w1_def split: sum.splits)
  have tr: "trace w' = trace w5 @ CleanupStart vp ap # deletion_attempt vp (files w5) @
              deletion_attempt ap (files_after_attempt env vp (files w5))"
    unfolding w' by (rule cleanup_trace)
  have fl: "files w' = files_after_attempt env ap (files_after_attempt env vp (files w5))"
    unfolding w' by (rule cleanup_files)
  have s3: "shape (trace w3) = shape (trace w)"
    by (simp add: w3_def w1_def)
  have st: "start = env_clock env (ticks w)"
    by (simp add: start_def Date_now_def)
  have tm: "\<exists>n. dec (env_clock env (ticks w4) - start) = dec (env_clock env n - env_clock env (ticks w))"
    unfolding st by (rule exI [of _ "ticks w4"]) simp
  show ?thesis
  proof (cases "truthy (body_url req)")
    case False
    with T have f: "r = Inl (Error (ascii ''Video URL is required''))" "vp = None" "ap = None" "w4 = w3"
      by (simp_all add: try_block_falsy)
    show ?thesis
      apply (rule exI [of _ vp], rule exI [of _ ap], rule exI [of _ "trace w5"],
              rule exI [of _ "files w5"])
      using False tm
      apply (simp add: f tr fl w5_def catch_block_trace s3 error_tail_def)
      done
  next
    case True
    show ?thesis
      using try_block_shape [OF True T] True
      apply (elim disjE exE conjE)
      apply (rule exI [of _ vp], rule exI [of _ ap], rule exI [of _ "trace w5"],
              rule exI [of _ "files w5"],
              (simp add: tm tr fl w5_def catch_block_trace s3 error_tail_def V_def
                 stage_ok_shape_def stage_fail_shape_def; blast))+
      done
  qed
qed

section \<open>The session protocol\<close>

text \<open>
  C2. The marks a session adds to the trace are these. For a request without a usable url:
  the error events and cleanup. Otherwise the validation event and then, stage by stage
  in the order download, upload, extraction, transcription, analysis: the progress event
  announcing the stage, the start of the stage, its success, and the progress event with
  the summary data of that stage. Either this goes through all five stages and ends with
  the complete event, the terminal final event and cleanup; or it stops at the first
  stage that fails, after which come only one error progress event and one terminal error
  event, which carry the message of the failure and the elapsed time, and cleanup.
\<close>

theorem stages_run_in_order:
  "\<exists>ms. shape (trace (snd (analyzeVideo env this req w))) = shape (trace w) @ ms \<and>
     ((\<not> truthy (body_url req) \<and> (\<exists>er. ms = error_tail er None None))
      \<or> (\<exists>ds fr vp ap.
            list_all2 summary_for all_stages ds \<and>
            ms = M_progress S_validation (UrlData (body_url req)) #
                 concat (map2 stage_ok_shape all_stages ds) @
                 [M_progress S_complete (ResultData fr), M_terminal (Final fr), M_end,
                  M_cleanup vp ap])
      \<or> (\<exists>st ds e er vp ap.
            list_all2 summary_for (stages_before st) ds \<and>
            ms = M_progress S_validation (UrlData (body_url req)) #
                 concat (map2 stage_ok_shape (stages_before st) ds) @
                 stage_fail_shape st e @ error_tail er vp ap \<and>
            er_error er = message e \<and>
            (\<exists>n. er_processingTime er =
                   dec (env_clock env n - env_clock env (ticks w)) @ ascii ''ms'')))"
  using session_cases [of env this req w]
  apply (elim exE conjE disjE)
  subgoal for vp ap pre fs ms er
    by (rule exI [of _ ms]) blast
  subgoal for vp ap pre fs ms e er
    apply (rule exI [of _ ms], rule conjI, assumption)
    apply (rule disjI2, rule disjI2)
    apply (rule exI [of _ Download], rule exI [of _ "[]"])
    by auto
  subgoal for vp ap pre fs ms e er p
    apply (rule exI [of _ ms], rule conjI, assumption)
    apply (rule disjI2, rule disjI2)
    apply (rule exI [of _ Upload], rule exI [of _ "[PathData p]"])
    by auto
  subgoal for vp ap pre fs ms e er p u
    apply (rule exI [of _ ms], rule conjI, assumption)
    apply (rule disjI2, rule disjI2)
    apply (rule exI [of _ Extraction], rule exI [of _ "[PathData p, PublicUrlData u]"])
    by auto
  subgoal for vp ap pre fs ms e er p u a
    apply (rule exI [of _ ms], rule conjI, assumption)
    apply (rule disjI2, rule disjI2)
    apply (rule exI [of _ Transcription], rule exI [of _ "[PathData p, PublicUrlData u, PathData a]"])
    by auto
  subgoal for vp ap pre fs ms e er p u a n pv
    apply (rule exI [of _ ms], rule conjI, assumption)
    apply (rule disjI2, rule disjI2)
    apply (rule exI [of _ Analysis],
           rule exI [of _ "[PathData p, PublicUrlData u, PathData a, TranscriptData n pv]"])
    by auto
  subgoal for vp ap pre fs ms p u a t an fr
    apply (rule exI [of _ ms], rule conjI, assumption)
    apply (rule disjI2, rule disjI1)
    apply (rule exI [of _ "[PathData p, PublicUrlData u, PathData a,
              TranscriptData (length t) (take 100 t @ ascii ''...''), AnalysisData an]"])
    by (auto simp: all_stages_def)
  done

theorem stages_run_in_order_witness:
  "truthy (body_url req_ok) \<and>
   (\<exists>ms. shape (trace (snd (analyzeVideo env_partial ctl0 req_ok world0))) = shape (trace world0) @ ms \<and>
     ((\<exists>ds fr vp ap.
            list_all2 summary_for all_stages ds \<and>
            ms = M_progress S_validation (UrlData (body_url req_ok)) #
                 concat (map2 stage_ok_shape all_stages ds) @
                 [M_progress S_complete (ResultData fr), M_terminal (Final fr), M_end,
                  M_cleanup vp ap])
      \<or> (\<exists>st ds e er vp ap.
            list_all2 summary_for (stages_before st) ds \<and>
            ms = M_progress S_validation (UrlData (body_url req_ok)) #
                 concat (map2 stage_ok_shape (stages_before st) ds) @
                 stage_fail_shape st e @ error_tail er vp ap \<and>
            er_error er = message e \<and>
            (\<exists>n. er_processingTime er =
                   dec (env_clock env_partial n - env_clock env_partial (ticks world0)) @ ascii ''ms''))))"
proof -
  have t: "truthy (body_url req_ok)" by (simp add: req_ok_def)
  from stages_run_in_order [of env_partial ctl0 req_ok world0] t show ?thesis
    by blast
qed

text \<open>
  C7. When the url of the request is missing or empty (or any other falsy value), the
  session writes the response head, one progress event of step \<open>error\<close> and the
  terminal error event \<open>Video URL is required\<close>, ends the response and enters cleanup
  with no recorded path: no stage is started, no tool or service is called, no progress
  event of a stage is written, and the files and the bucket are as before.
\<close>

theorem empty_url_rejected:
  "\<not> truthy (body_url req) \<Longrightarrow>
     (\<exists>p er.
        trace (snd (analyzeVideo env this req w)) =
          trace w @ [WriteHead, Write (Progress p), Write (Terminal (ErrorEvent er)), End,
                     CleanupStart None None] \<and>
        pe_step p = S_error \<and> pe_data p = ErrorData er \<and>
        er_error er = ascii ''Video URL is required'' \<and> er_success er = False) \<and>
     files (snd (analyzeVideo env this req w)) = files w \<and>
     bucket (snd (analyzeVideo env this req w)) = bucket w"
  by (simp add: analyzeVideo_def try_block_falsy catch_block_def sendProgress_def cleanup_def
        Date_now_def uuidv4_def emit_def Let_def)

theorem empty_url_rejected_witness:
  "\<not> truthy (body_url req_empty) \<and> \<not> truthy (body_url req_missing) \<and>
   (\<exists>p er.
        trace (snd (analyzeVideo env_ok ctl0 req_empty world0)) =
          trace world0 @ [WriteHead, Write (Progress p), Write (Terminal (ErrorEvent er)), End,
                     CleanupStart None None] \<and>
        pe_step p = S_error \<and> pe_data p = ErrorData er \<and>
        er_error er = ascii ''Video URL is required'' \<and> er_success er = False) \<and>
   (\<exists>p er.
        trace (snd (analyzeVideo env_ok ctl0 req_missing world0)) =
          trace world0 @ [WriteHead, Write (Progress p), Write (Terminal (ErrorEvent er)), End,
                     CleanupStart None None] \<and>
        pe_step p = S_error \<and> pe_data p = ErrorData er \<and>
        er_error er = ascii ''Video URL is required'' \<and> er_success er = False)"
proof -
  have e: "\<not> truthy (body_url req_empty)" by (simp add: req_empty_def)
  have m: "\<not> truthy (body_url req_missing)" by (simp add: req_missing_def)
  from empty_url_rejected [OF e, of env_ok ctl0 world0]
       empty_url_rejected [OF m, of env_ok ctl0 world0] e m
  show ?thesis by blast
qed

lemma stage_streams [simp]:
  "stream (trace (snd (downloadVideo env url w))) = stream (trace w)"
  "stream (trace (snd (uploadToSupabase env this videoPath sessionId w))) = stream (trace w)"
  "stream (trace (snd (extractAudio env videoPath w))) = stream (trace w)"
  "stream (trace (snd (transcribeAudio env audioPath w))) = stream (trace w)"
  "stream (trace (snd (analyzeContent env g transcript w))) = stream (trace w)"
  unfolding stream_def
  by (simp_all add: downloadVideo_view uploadToSupabase_view extractAudio_view
        transcribeAudio_view analyzeContent_view)

lemma run_stage_stream:
  assumes "\<And>u. stream (trace (snd (body u))) = stream (trace u)"
  shows "stream (trace (snd (run_stage st body w))) = stream (trace w)"
  using run_stage_view [of written body st w] assms
  by (simp add: stream_def split: sum.splits)

lemmas run_stage_streams [simp] =
  run_stage_stream [of "downloadVideo env url" for env url, OF stage_streams(1)]
  run_stage_stream [of "uploadToSupabase env this videoPath sessionId" for env this videoPath sessionId, OF stage_streams(2)]
  run_stage_stream [of "extractAudio env videoPath" for env videoPath, OF stage_streams(3)]
  run_stage_stream [of "transcribeAudio env audioPath" for env audioPath, OF stage_streams(4)]
  run_stage_stream [of "analyzeContent env g transcript" for env g transcript, OF stage_streams(5)]

lemma sendProgress_stream [simp]:
  "stream (trace (sendProgress env sessionId step msg data w)) =
     stream (trace w) @
       [Progress \<lparr>pe_sessionId = sessionId, pe_step = step, pe_message = msg,
                   pe_timestamp = env_clock env (ticks w), pe_data = data\<rparr>]"
  by (simp add: sendProgress_trace)

lemma stream_deletion_attempt [simp]: "stream (deletion_attempt x fs) = []"
  by (cases x) simp_all

lemma try_block_stream:
  assumes "try_block env this req sid start w = (r, vp, ap, w')"
  shows "\<exists>new. stream (trace w') = stream (trace w) @ new \<and>
           (case r of
              Inl e \<Rightarrow> list_all is_Progress new
            | Inr u \<Rightarrow> new \<noteq> [] \<and> is_Terminal (last new) \<and> list_all is_Progress (butlast new))"
proof -
  let ?T = "try_block env this req sid start w"
  have eqs: "r = fst ?T" "w' = snd (snd (snd ?T))"
    using assms by simp_all
  show ?thesis
    unfolding eqs
    by (simp add: try_block_def Let_def split_beta split: sum.splits)
qed

lemma progress_then_terminal:
  assumes "new \<noteq> []" "is_Terminal (last new)" "list_all is_Progress (butlast new)"
  shows "\<exists>ps t. new = map Progress ps @ [Terminal t]"
proof -
  from assms(2) obtain t where t: "last new = Terminal t"
    by (cases "last new") simp_all
  have "\<exists>ps. xs = map Progress ps" if "list_all is_Progress xs" for xs
    using that
  proof (induction xs)
    case Nil
    show ?case by simp
  next
    case (Cons x xs)
    then obtain ps where "xs = map Progress ps" by auto
    moreover from Cons.prems obtain p where "x = Progress p" by (cases x) simp_all
    ultimately have "x # xs = map Progress (p # ps)" by simp
    then show ?case by (rule exI)
  qed
  with assms(3) obtain ps where "butlast new = map Progress ps" by blast
  with t assms(1) have "new = map Progress ps @ [Terminal t]"
    using append_butlast_last_id [of new] by simp
  then show ?thesis by blast
qed

text \<open>
  C1. The events a session writes to the response are some progress events followed by
  exactly one terminal event, a final event or an error event, and that terminal event is
  the last event written, cleanup included.
\<close>

theorem one_terminal_event:
  "\<exists>ps t. stream (trace (snd (analyzeVideo env this req w))) =
            stream (trace w) @ map Progress ps @ [Terminal t]"
proof -
  define start where "start = fst (Date_now env w)"
  define w1 where "w1 = snd (Date_now env w)"
  define sid where "sid = fst (uuidv4 env w1)"
  define w3 where "w3 = emit WriteHead (snd (uuidv4 env w1))"
  obtain r vp ap w4 where T: "try_block env this req sid start w3 = (r, vp, ap, w4)"
    by (rule prod_cases4)
  define w5 where "w5 = (case r of Inr u \<Rightarrow> w4 | Inl e \<Rightarrow> catch_block env sid start e w4)"
  have w': "snd (analyzeVideo env this req w) = snd (cleanup env vp ap sid w5)"
    unfolding w5_def
    using T [unfolded sid_def start_def w3_def w1_def]
    by (simp add: analyzeVideo_def Let_def split_beta sid_def start_def w1_def split: sum.splits)
  have s5: "stream (trace (snd (analyzeVideo env this req w))) = stream (trace w5)"
    unfolding w' by (simp add: cleanup_trace)
  have s3: "stream (trace w3) = stream (trace w)"
    by (simp add: w3_def w1_def)
  from try_block_stream [OF T] obtain new
    where n: "stream (trace w4) = stream (trace w) @ new"
      and c: "case r of Inl e \<Rightarrow> list_all is_Progress new
              | Inr u \<Rightarrow> new \<noteq> [] \<and> is_Terminal (last new) \<and> list_all is_Progress (butlast new)"
    unfolding s3 by blast
  have "\<exists>new'. stream (trace w5) = stream (trace w) @ new' \<and> new' \<noteq> [] \<and>
          is_Terminal (last new') \<and> list_all is_Progress (butlast new')"
  proof (cases r)
    case (Inl e)
    with c have "list_all is_Progress new" by simp
    with Inl n show ?thesis
      by (simp add: w5_def catch_block_trace butlast_append)
  next
    case (Inr u)
    with c n show ?thesis by (simp add: w5_def)
  qed
  then obtain new' where "stream (trace w5) = stream (trace w) @ new'" "new' \<noteq> []"
      "is_Terminal (last new')" "list_all is_Progress (butlast new')"
    by blast
  with progress_then_terminal [of new'] s5 show ?thesis
    by auto
qed

section \<open>Cleanup\<close>

lemma ascii_append: "ascii a @ ascii b = ascii (a @ b)"
  by (simp add: ascii_def)

lemma ascii_append2: "ascii a @ ascii b @ r = ascii (a @ b) @ r"
  by (simp add: ascii_def)

lemmas eval_defs = ascii_append ascii_append2
  analyzeVideo_def try_block_def catch_block_def cleanup_def run_stage_def sendProgress_def
  downloadVideo_def uploadToSupabase_def extractAudio_def transcribeAudio_def analyzeContent_def
  downloader_cleanup_def transcriber_cleanup_def
  fs_pathExists_def fs_remove_def fs_readFile_def fs_create_def storage_upload_def
  uuidv4_def Date_now_def emit_def ytdlp_args_def
  validateAnalysisResponse_def requiredFields_def check_field_def
  trim_sample_hook trim_sample_cta trim_sample_usp
  ctl0_def req_ok_def world0_def Let_def

text \<open>
  C3. A session, however it ends, never raises an error to its caller, and enters cleanup
  exactly once, right after the terminal event and the end of the response. Cleanup gets
  the video path if and only if the download stage returned, and the audio path if and
  only if the extraction stage returned. For each recorded path it asks whether the file
  exists and, if so, tries to remove it; the attempt for the audio file is made whatever
  became of the attempt for the video file, and a failed removal only leaves the file in
  place.
\<close>

theorem cleanup_once_after_terminal:
  "fst (analyzeVideo env this req w) = Inr () \<and>
   (\<exists>vp ap pre fs ms t.
      shape (trace (snd (analyzeVideo env this req w))) =
        shape (trace w) @ ms @ [M_terminal t, M_end, M_cleanup vp ap] \<and>
      (\<forall>x y. M_cleanup x y \<notin> set ms) \<and>
      (vp = None) = (M_returned Download \<notin> set ms) \<and>
      (ap = None) = (M_returned Extraction \<notin> set ms) \<and>
      trace (snd (analyzeVideo env this req w)) =
        pre @ CleanupStart vp ap # deletion_attempt vp fs @
          deletion_attempt ap (files_after_attempt env vp fs) \<and>
      files (snd (analyzeVideo env this req w)) =
        files_after_attempt env ap (files_after_attempt env vp fs))"
proof (rule conjI)
  show "fst (analyzeVideo env this req w) = Inr ()"
    by (rule analyzeVideo_result)
  show "\<exists>vp ap pre fs ms t.
      shape (trace (snd (analyzeVideo env this req w))) =
        shape (trace w) @ ms @ [M_terminal t, M_end, M_cleanup vp ap] \<and>
      (\<forall>x y. M_cleanup x y \<notin> set ms) \<and>
      (vp = None) = (M_returned Download \<notin> set ms) \<and>
      (ap = None) = (M_returned Extraction \<notin> set ms) \<and>
      trace (snd (analyzeVideo env this req w)) =
        pre @ CleanupStart vp ap # deletion_attempt vp fs @
          deletion_attempt ap (files_after_attempt env vp fs) \<and>
      files (snd (analyzeVideo env this req w)) =
        files_after_attempt env ap (files_after_attempt env vp fs)"
    using session_cases [of env this req w]
    apply (elim exE conjE disjE)
    subgoal for vp ap pre fs ms er
      apply (rule exI [of _ vp], rule exI [of _ ap], rule exI [of _ pre], rule exI [of _ fs],
             rule exI [of _ "butlast (butlast (butlast ms))"])
      by (simp add: error_tail_def stage_ok_shape_def stage_fail_shape_def)
    subgoal for vp ap pre fs ms e er
      apply (rule exI [of _ vp], rule exI [of _ ap], rule exI [of _ pre], rule exI [of _ fs],
             rule exI [of _ "butlast (butlast (butlast ms))"])
      by (simp add: error_tail_def stage_ok_shape_def stage_fail_shape_def)
    subgoal for vp ap pre fs ms e er p
      apply (rule exI [of _ vp], rule exI [of _ ap], rule exI [of _ pre], rule exI [of _ fs],
             rule exI [of _ "butlast (butlast (butlast ms))"])
      by (simp add: error_tail_def stage_ok_shape_def stage_fail_shape_def)
    subgoal for vp ap pre fs ms e er p u
      apply (rule exI [of _ vp], rule exI [of _ ap], rule exI [of _ pre], rule exI [of _ fs],
             rule exI [of _ "butlast (butlast (butlast ms))"])
      by (simp add: error_tail_def stage_ok_shape_def stage_fail_shape_def)
    subgoal for vp ap pre fs ms e er p u a
      apply (rule exI [of _ vp], rule exI [of _ ap], rule exI [of _ pre], rule exI [of _ fs],
             rule exI [of _ "butlast (butlast (butlast ms))"])
      by (simp add: error_tail_def stage_ok_shape_def stage_fail_shape_def)
    subgoal for vp ap pre fs ms e er p u a n pv
      apply (rule exI [of _ vp], rule exI [of _ ap], rule exI [of _ pre], rule exI [of _ fs],
             rule exI [of _ "butlast (butlast (butlast ms))"])
      by (simp add: error_tail_def stage_ok_shape_def stage_fail_shape_def)
    subgoal for vp ap pre fs ms p u a t an fr
      apply (rule exI [of _ vp], rule exI [of _ ap], rule exI [of _ pre], rule exI [of _ fs],
             rule exI [of _ "butlast (butlast (butlast ms))"])
      by (simp add: error_tail_def stage_ok_shape_def stage_fail_shape_def)
    done
qed

theorem cleanup_once_after_terminal_witness:
  "fst (analyzeVideo env_undeletable ctl0 req_ok world0) = Inr () \<and>
   env_remove_fails env_undeletable (ascii ''v1.mp4'') \<noteq> None \<and>
   files (snd (analyzeVideo env_undeletable ctl0 req_ok world0)) = [ascii ''v1.mp4''] \<and>
   take 5 (rev (trace (snd (analyzeVideo env_undeletable ctl0 req_ok world0)))) =
     [Exec (Remove (ascii ''a1.wav'')), Exec (PathExists (ascii ''a1.wav'')),
      Exec (Remove (ascii ''v1.mp4'')), Exec (PathExists (ascii ''v1.mp4'')),
      CleanupStart (Some (ascii ''v1.mp4'')) (Some (ascii ''a1.wav''))]"
proof -
  have r: "fst (analyzeVideo env_undeletable ctl0 req_ok world0) = Inr ()"
    using cleanup_once_after_terminal [of env_undeletable ctl0 req_ok world0] by (rule conjunct1)
  have f: "env_remove_fails env_undeletable (ascii ''v1.mp4'') \<noteq> None"
    by (simp add: env_undeletable_def)
  have fl: "files (snd (analyzeVideo env_undeletable ctl0 req_ok world0)) = [ascii ''v1.mp4'']"
    by (simp add: eval_defs env_undeletable_def env_ok_def analysis_ok_def)
  have tr: "take 5 (rev (trace (snd (analyzeVideo env_undeletable ctl0 req_ok world0)))) =
     [Exec (Remove (ascii ''a1.wav'')), Exec (PathExists (ascii ''a1.wav'')),
      Exec (Remove (ascii ''v1.mp4'')), Exec (PathExists (ascii ''v1.mp4'')),
      CleanupStart (Some (ascii ''v1.mp4'')) (Some (ascii ''a1.wav''))]"
    by (simp add: eval_defs env_undeletable_def env_ok_def analysis_ok_def)
  from r f fl tr show ?thesis by blast
qed

lemma files_after_attempt_subset: "set (files_after_attempt env x fs) \<subseteq> set fs"
  by (cases x) auto

lemma files_after_attempt_keeps_absent:
  "p \<notin> set fs \<Longrightarrow> p \<notin> set (files_after_attempt env x fs)"
  using files_after_attempt_subset [of env x fs] by blast

lemma files_after_attempt_removed:
  "env_remove_fails env p = None \<Longrightarrow> p \<notin> set (files_after_attempt env (Some p) fs)"
  by simp

text \<open>
  C4, as stated, fails. In the session below the extraction stage fails after ffmpeg has
  written to the audio path; the path was never recorded, so the file produced by the
  failing stage is still in the temp directory after cleanup, although removing it would
  not have failed.
\<close>

theorem partial_audio_survives_cleanup:
  "M_threw Extraction (Error (ascii ''ffmpeg exited with code 1''))
     \<in> set (shape (trace (snd (analyzeVideo env_partial ctl0 req_ok world0)))) \<and>
   env_ffmpeg env_partial (ascii ''v1.mp4'') (ascii ''a1.wav'') =
     FfmpegError (Error (ascii ''ffmpeg exited with code 1'')) True \<and>
   env_remove_fails env_partial (ascii ''a1.wav'') = None \<and>
   ascii ''a1.wav'' \<notin> set (files world0) \<and>
   ascii ''a1.wav'' \<in> set (files (snd (analyzeVideo env_partial ctl0 req_ok world0)))"
  by (simp add: eval_defs env_partial_def env_ok_def)

text \<open>
  C4, amended. When a session fails at a stage, no later stage is started. Cleanup gets the
  video path exactly when the download stage came before the failing stage, and the audio
  path exactly when the extraction stage did; these are the paths the success events of
  those stages reported. Each such file is absent from the temp directory after the
  session unless its removal fails. What the failing stage itself left behind is not
  covered.
\<close>

theorem failed_session_cleanup:
  assumes "shape (trace (snd (analyzeVideo env this req w))) = shape (trace w) @ ms"
    and "M_threw st e \<in> set ms"
  shows "(\<forall>st' \<in> set (stages_after st). M_invoke st' \<notin> set ms) \<and>
         (\<exists>vp ap. last ms = M_cleanup vp ap \<and>
            (vp = None) = (Download \<notin> set (stages_before st)) \<and>
            (ap = None) = (Extraction \<notin> set (stages_before st)) \<and>
            (\<forall>p. vp = Some p \<longrightarrow>
                 M_progress S_download (PathData p) \<in> set ms \<and>
                 (env_remove_fails env p = None \<longrightarrow>
                    p \<notin> set (files (snd (analyzeVideo env this req w))))) \<and>
            (\<forall>a. ap = Some a \<longrightarrow>
                 M_progress S_extraction (PathData a) \<in> set ms \<and>
                 (env_remove_fails env a = None \<longrightarrow>
                    a \<notin> set (files (snd (analyzeVideo env this req w))))))"
  using session_cases [of env this req w] assms
  apply (elim exE conjE disjE)
  subgoal for vp ap pre fs ms' er
    by (simp add: error_tail_def)
  subgoal for vp ap pre fs ms' e' er
    by (auto simp: error_tail_def stage_ok_shape_def stage_fail_shape_def)
  subgoal for vp ap pre fs ms' e' er p
    by (auto simp: error_tail_def stage_ok_shape_def stage_fail_shape_def)
  subgoal for vp ap pre fs ms' e' er p u
    by (auto simp: error_tail_def stage_ok_shape_def stage_fail_shape_def)
  subgoal for vp ap pre fs ms' e' er p u a
    by (auto simp: error_tail_def stage_ok_shape_def stage_fail_shape_def
          files_after_attempt_keeps_absent)
  subgoal for vp ap pre fs ms' e' er p u a n pv
    by (auto simp: error_tail_def stage_ok_shape_def stage_fail_shape_def
          files_after_attempt_keeps_absent)
  subgoal for vp ap pre fs ms' p u a t an fr
    by (simp add: stage_ok_shape_def)
  done


theorem failed_session_cleanup_witness:
  "M_threw Extraction (Error (ascii ''ffmpeg exited with code 1''))
     \<in> set (shape (trace (snd (analyzeVideo env_partial ctl0 req_ok world0)))) \<and>
   M_invoke Transcription \<notin> set (shape (trace (snd (analyzeVideo env_partial ctl0 req_ok world0)))) \<and>
   M_invoke Analysis \<notin> set (shape (trace (snd (analyzeVideo env_partial ctl0 req_ok world0)))) \<and>
   last (shape (trace (snd (analyzeVideo env_partial ctl0 req_ok world0)))) =
     M_cleanup (Some (ascii ''v1.mp4'')) None \<and>
   env_remove_fails env_partial (ascii ''v1.mp4'') = None \<and>
   ascii ''v1.mp4'' \<notin> set (files (snd (analyzeVideo env_partial ctl0 req_ok world0)))"
proof -
  let ?w = "snd (analyzeVideo env_partial ctl0 req_ok world0)"
  let ?ms = "shape (trace ?w)"
  let ?e = "Error (ascii ''ffmpeg exited with code 1'')"
  have h1: "shape (trace ?w) = shape (trace world0) @ ?ms"
    by (simp add: world0_def)
  have h2: "M_threw Extraction ?e \<in> set ?ms"
    by (simp add: eval_defs env_partial_def env_ok_def)
  have l: "last ?ms = M_cleanup (Some (ascii ''v1.mp4'')) None"
    by (simp add: eval_defs env_partial_def env_ok_def)
  have d: "env_remove_fails env_partial (ascii ''v1.mp4'') = None"
    by (simp add: env_partial_def env_ok_def)
  note c = failed_session_cleanup [OF h1 h2]
  from c have later: "M_invoke Transcription \<notin> set ?ms" "M_invoke Analysis \<notin> set ?ms"
    by simp_all
  from c l d have gone: "ascii ''v1.mp4'' \<notin> set (files ?w)"
    by auto
  from h2 later l d gone show ?thesis by blast
qed

end
